theory Spec2Isabelle
  imports Main "HOL-Library.Word" "HOL-Library.AList"
begin

section \<open>Data model of the MQTT client (client.go)\<close>

text \<open>
  The Go integer types are words: \<open>byte\<close> is 8 bits, a packet identifier 16 bits, the
  connection status a \<open>uint32\<close>. \<open>time.Duration\<close> is a signed 64-bit count of
  nanoseconds: it is a 64-bit word read with \<open>sint\<close>, so that doubling wraps as it does
  in Go.
\<close>

type_synonym byte = "8 word"
type_synonym uint16 = "16 word"
type_synonym uint32 = "32 word"
type_synonym Duration = "64 word"

definition Second :: Duration where
  "Second = 1000000000"

subsection \<open>Connection status (the const block at the top of client.go)\<close>

definition disconnected :: uint32 where "disconnected = 0"
definition connecting :: uint32 where "connecting = 1"
definition reconnecting :: uint32 where "reconnecting = 2"
definition connected :: uint32 where "connected = 3"

subsection \<open>Packets, errors and tokens\<close>

text \<open>
  The core only observes the type tag of a control packet and the fields listed here.
  \<open>OtherPacket\<close> stands for every packet type the client code does not name.
\<close>

datatype ControlPacket =
    PublishPacket (Qos: byte) (Retain: bool) (TopicName: string) (MessageID: uint16)
      (Payload: "byte list")
  | SubscribePacket (Topics: "string list") (Qoss: "byte list") (MessageID: uint16)
  | UnsubscribePacket (Topics: "string list") (MessageID: uint16)
  | PubrelPacket (MessageID: uint16)
  | DisconnectPacket
  | OtherPacket (MessageID: uint16)

text \<open>
  Modelled from the spec: the CONNACK return codes of package \<open>packets\<close>, which is not
  part of the source file. Accepted is 0; a separate sentinel marks dial and transport
  failures. The spec gives no number for the sentinel; 254 is used, and the development
  relies only on its being different from \<open>Accepted\<close>.
\<close>

definition Accepted :: byte where "Accepted = 0"
definition ErrNetworkError :: byte where "ErrNetworkError = 254"

text \<open>
  Errors are values. \<open>Errorf\<close> carries the message of \<open>errors.New\<close> and
  \<open>fmt.Errorf\<close> calls with a constant text, \<open>ConnErrors rc\<close> is the error that the
  table \<open>packets.ConnErrors\<close> holds for a return code it lists, \<open>DialError\<close> is
  whatever the dialler reports, and \<open>NetworkErrorf rc e\<close> is
  \<open>fmt.Errorf("%s : %s", packets.ConnErrors[rc], err)\<close>, where \<open>err\<close> may be nil; that
  error is never nil, whatever the table holds.
\<close>

datatype error =
    ErrNotConnected
  | Errorf string
  | ConnErrors byte
  | DialError string
  | NetworkErrorf byte "error option"

text \<open>
  Modelled from the spec: the Token of token.go, a single-shot completion with a done
  signal, an optional error and operation-specific result data (CONNACK return code and
  session-present flag, message id, subscribed topics).
\<close>

datatype token_type = ConnectT | PublishT | SubscribeT | UnsubscribeT | DisconnectT

record Token =
  ttype :: token_type
  complete :: bool
  err :: "error option"
  returnCode :: byte
  sessionPresent :: bool
  messageID :: uint16
  subs :: "string list"

definition newToken :: "token_type \<Rightarrow> Token" where
  "newToken tt = \<lparr>ttype = tt, complete = False, err = None, returnCode = 0,
     sessionPresent = False, messageID = 0, subs = []\<rparr>"

definition flowComplete :: "Token \<Rightarrow> Token" where
  "flowComplete t = t\<lparr>complete := True\<rparr>"

definition setError :: "Token \<Rightarrow> error \<Rightarrow> Token" where
  "setError t e = flowComplete (t\<lparr>err := Some e\<rparr>)"

type_synonym PacketAndToken = "ControlPacket \<times> Token option"

subsection \<open>Message-id registry\<close>

text \<open>
  Modelled from the spec: the registry of messageids.go (section 4.1). The entry of an
  id is the token registered for it, as it was when it was registered, or the
  placeholder that \<open>reserveStoredPublishIDs\<close> creates.

  \<open>getID\<close> (the spec's \<open>claim\<close>) scans the nonzero 16-bit ids starting after a
  rotating cursor for a free slot; on success it stores the token under the id and
  returns the id; it returns 0, and changes nothing, when no id is free.
  \<open>claimID\<close> (the spec's \<open>claim_specific\<close>) records a given id and fails, changing
  nothing, when the id is already live. \<open>cleanUp\<close> empties the table.
\<close>

datatype tokenCompletor = PlaceHolderToken uint16 | TokenRef Token

record messageIds =
  index :: "uint16 \<rightharpoonup> tokenCompletor"
  cursor :: uint16

definition next_id :: "uint16 \<Rightarrow> uint16" where
  "next_id i = (if i + 1 = 0 then 1 else i + 1)"

fun scan_free :: "nat \<Rightarrow> uint16 \<Rightarrow> (uint16 \<rightharpoonup> tokenCompletor) \<Rightarrow> uint16" where
  "scan_free 0 i m = 0"
| "scan_free (Suc n) i m = (let j = next_id i in if m j = None then j else scan_free n j m)"

definition getID :: "tokenCompletor \<Rightarrow> messageIds \<Rightarrow> uint16 \<times> messageIds" where
  "getID t mids =
     (let i = scan_free 65535 (cursor mids) (index mids)
      in if i = 0 then (0, mids)
         else (i, mids\<lparr>index := (index mids)(i \<mapsto> t), cursor := i\<rparr>))"

definition claimID :: "tokenCompletor \<Rightarrow> uint16 \<Rightarrow> messageIds \<Rightarrow> messageIds" where
  "claimID t i mids =
     (if index mids i = None then mids\<lparr>index := (index mids)(i \<mapsto> t)\<rparr> else mids)"

definition cleanUp :: "messageIds \<Rightarrow> messageIds" where
  "cleanUp mids = mids\<lparr>index := Map.empty\<rparr>"

subsection \<open>Persistence store\<close>

text \<open>
  Modelled from the spec: the Store interface of store.go (sections 3 and 4.2). A key is
  a direction tag combined with a packet identifier; the store holds at most one packet
  per key and supports list-all-keys, get, put, delete, open, close and reset. Open and
  close bracket the life of the client and leave the contents alone.
  \<open>persistOutbound\<close> writes an outbound packet through to the store before it is
  handed on: a PUBLISH with QoS 0 is not stored, a PUBLISH with QoS of at least 1 and
  every SUBSCRIBE, UNSUBSCRIBE and PUBREL is stored under its outbound key.
\<close>

datatype key = Outbound uint16 | Inbound uint16

record Store =
  opened :: bool
  contents :: "(key \<times> ControlPacket) list"

definition store_Open :: "Store \<Rightarrow> Store" where
  "store_Open s = s\<lparr>opened := True\<rparr>"

definition store_Close :: "Store \<Rightarrow> Store" where
  "store_Close s = s\<lparr>opened := False\<rparr>"

definition store_All :: "Store \<Rightarrow> key list" where
  "store_All s = map fst (contents s)"

definition store_Get :: "Store \<Rightarrow> key \<Rightarrow> ControlPacket option" where
  "store_Get s k = map_of (contents s) k"

definition store_Put :: "key \<Rightarrow> ControlPacket \<Rightarrow> Store \<Rightarrow> Store" where
  "store_Put k p s = s\<lparr>contents := AList.update k p (contents s)\<rparr>"

definition store_Del :: "key \<Rightarrow> Store \<Rightarrow> Store" where
  "store_Del k s = s\<lparr>contents := AList.delete k (contents s)\<rparr>"

definition store_Reset :: "Store \<Rightarrow> Store" where
  "store_Reset s = s\<lparr>contents := []\<rparr>"

definition isKeyOutbound :: "key \<Rightarrow> bool" where
  "isKeyOutbound k = (case k of Outbound _ \<Rightarrow> True | Inbound _ \<Rightarrow> False)"

definition persistOutbound :: "Store \<Rightarrow> ControlPacket \<Rightarrow> Store" where
  "persistOutbound s m =
     (case m of
        PublishPacket q r tn mid pl \<Rightarrow> if q = 0 then s else store_Put (Outbound mid) m s
      | SubscribePacket ts qs mid \<Rightarrow> store_Put (Outbound mid) m s
      | UnsubscribePacket ts mid \<Rightarrow> store_Put (Outbound mid) m s
      | PubrelPacket mid \<Rightarrow> store_Put (Outbound mid) m s
      | DisconnectPacket \<Rightarrow> s
      | OtherPacket mid \<Rightarrow> s)"

subsection \<open>Route table\<close>

text \<open>
  Modelled from the spec: the router of router.go (sections 3 and 4.3), a mapping from
  topic filter to user handler with \<open>add(filter, handler)\<close> and \<open>delete(filter)\<close>.
  A handler is an opaque value; a nil callback is \<open>None\<close>.
\<close>

type_synonym MessageHandler = nat

record router =
  routes :: "string \<rightharpoonup> MessageHandler"
  defaultHandler :: "MessageHandler option"

definition newRouter :: router where
  "newRouter = \<lparr>routes = Map.empty, defaultHandler = None\<rparr>"

definition setDefaultHandler :: "MessageHandler option \<Rightarrow> router \<Rightarrow> router" where
  "setDefaultHandler h r = r\<lparr>defaultHandler := h\<rparr>"

definition addRoute :: "string \<Rightarrow> MessageHandler \<Rightarrow> router \<Rightarrow> router" where
  "addRoute topic callback r = r\<lparr>routes := (routes r)(topic \<mapsto> callback)\<rparr>"

definition deleteRoute :: "string \<Rightarrow> router \<Rightarrow> router" where
  "deleteRoute topic r = r\<lparr>routes := (routes r)(topic := None)\<rparr>"

subsection \<open>Options and the client\<close>

text \<open>
  The fields of \<open>ClientOptions\<close> that client.go reads. A broker is its URL. A network
  connection is the number of the dial that opened it.
\<close>

type_synonym conn = nat

record ClientOptions =
  Servers :: "string list"
  CleanSession :: bool
  ProtocolVersion :: nat
  protocolVersionExplicit :: bool
  ConnectRetry :: bool
  ConnectRetryInterval :: Duration
  AutoReconnect :: bool
  MaxReconnectInterval :: Duration
  WriteTimeout :: Duration
  ResumeSubs :: bool
  DefaultPublishHandler :: "MessageHandler option"
  OptStore :: "Store option"

text \<open>
  The client struct. The two outbound channels are the lists of what has been sent on
  them, oldest first. \<open>connectCallback\<close> gives, for the number of a dial, what the
  custom callback returns on that call. The keepalive fields, the mutexes and the
  channels of the comms routines have no part in the functions modelled here.
\<close>

record client =
  status :: uint32
  msgIds :: messageIds
  obound :: "PacketAndToken list"
  oboundP :: "PacketAndToken list"
  msgRouter :: router
  persist :: Store
  options :: ClientOptions
  netconn :: "conn option"
  InitialRC :: byte
  useCallback :: bool
  connectCallback :: "nat \<Rightarrow> error + conn"

definition NewMemoryStore :: Store where
  "NewMemoryStore = \<lparr>opened = False, contents = []\<rparr>"

definition NewClient :: "ClientOptions \<Rightarrow> client" where
  "NewClient opts =
     (let st = (case OptStore opts of None \<Rightarrow> NewMemoryStore | Some s \<Rightarrow> s);
          o1 = opts\<lparr>OptStore := Some st\<rparr>;
          o2 = (if ProtocolVersion o1 = 3 \<or> ProtocolVersion o1 = 4
                  then o1\<lparr>protocolVersionExplicit := True\<rparr>
                else if ProtocolVersion o1 = 131 \<or> ProtocolVersion o1 = 132
                  then o1\<lparr>protocolVersionExplicit := True\<rparr>
                else o1\<lparr>ProtocolVersion := 4, protocolVersionExplicit := False\<rparr>)
      in \<lparr>status = disconnected,
          msgIds = \<lparr>index = Map.empty, cursor = 0\<rparr>,
          obound = [], oboundP = [],
          msgRouter = setDefaultHandler (DefaultPublishHandler o2) newRouter,
          persist = st,
          options = o2,
          netconn = None,
          InitialRC = 0,
          useCallback = False,
          connectCallback = (\<lambda>n. Inl (Errorf []))\<rparr>)"

definition GetInitialRC :: "client \<Rightarrow> byte" where
  "GetInitialRC c = InitialRC c"

definition SetCustomCallback :: "(nat \<Rightarrow> error + conn) \<Rightarrow> client \<Rightarrow> client" where
  "SetCustomCallback callbackMethod c = c\<lparr>useCallback := True, connectCallback := callbackMethod\<rparr>"

definition AddRoute :: "string \<Rightarrow> MessageHandler option \<Rightarrow> client \<Rightarrow> client" where
  "AddRoute topic callback c =
     (case callback of
        Some h \<Rightarrow> c\<lparr>msgRouter := addRoute topic h (msgRouter c)\<rparr>
      | None \<Rightarrow> c)"

definition IsConnected :: "client \<Rightarrow> bool" where
  "IsConnected c =
     (if status c = connected then True
      else if AutoReconnect (options c) \<and> status c > connecting then True
      else if ConnectRetry (options c) \<and> status c = connecting then True
      else False)"

definition IsConnectionOpen :: "client \<Rightarrow> bool" where
  "IsConnectionOpen c = (if status c = connected then True else False)"

definition connectionStatus :: "client \<Rightarrow> uint32" where
  "connectionStatus c = status c"

definition setConnected :: "uint32 \<Rightarrow> client \<Rightarrow> client" where
  "setConnected s c = c\<lparr>status := s\<rparr>"

section \<open>Connecting\<close>

subsection \<open>The network and the other goroutines\<close>

text \<open>
  What the client cannot decide is read from a \<open>world\<close>: what the \<open>n\<close>-th dial of
  a worker returns for a broker (\<open>openConnection\<close>), what \<open>ConnectMQTT\<close> returns on a
  connection for a protocol level (return code and session-present flag), and
  whether a concurrent \<open>Disconnect()\<close> has stored \<open>disconnected\<close> in the status word
  by the end of the \<open>k\<close>-th sleep of a worker. \<open>ConnectMQTT\<close> returns the return code
  of the CONNACK it has read, or the network-error sentinel when the handshake fails on
  the transport and no CONNACK is read (the comment at the end of
  \<open>attemptConnection\<close> says that a network error can occur in \<open>ConnectMQTT\<close>).

  The table \<open>packets.ConnErrors\<close> of package \<open>packets\<close> is not part of the source
  file either and comes with the world: \<open>connErrors\<close> gives the error the table holds
  for a return code, and \<open>None\<close>, the nil error of a Go map, for a return code that
  the table does not list or lists with a nil error.
\<close>

record world =
  openConnection :: "nat \<Rightarrow> string \<Rightarrow> error + conn"
  ConnectMQTT :: "conn \<Rightarrow> nat \<Rightarrow> byte \<times> bool"
  disconnect_called :: "nat \<Rightarrow> bool"
  connErrors :: "byte \<Rightarrow> error option"

definition Detour :: "world \<Rightarrow> client \<Rightarrow> nat \<Rightarrow> string \<Rightarrow> error + conn" where
  "Detour w c n broker =
     (if useCallback c then connectCallback c n else openConnection w n broker)"

subsection \<open>attemptConnection\<close>

text \<open>
  The local variables of \<open>attemptConnection\<close>, the number of dials made so far, and the
  log of what was tried: a failed dial of a broker, or a handshake with a broker at a
  protocol level and the return code it gave.
\<close>

datatype dial_event = DialFailed string | Handshake string nat byte

record attempt =
  a_conn :: "conn option"
  a_rc :: byte
  a_sessionPresent :: bool
  a_err :: "error option"
  a_protocolVersion :: nat
  a_dials :: nat
  a_log :: "dial_event list"

text \<open>
  The loop over the brokers, with its label \<open>CONN\<close>: \<open>continue\<close> is the call on the
  rest of the list, \<open>break\<close> returns, and \<open>goto CONN\<close> is the call on the same list with
  \<open>protocolVersion\<close> set to 3. The variable \<open>protocolVersion\<close> lives outside the loop.
\<close>

function attempt_brokers :: "world \<Rightarrow> client \<Rightarrow> string list \<Rightarrow> attempt \<Rightarrow> attempt" where
  "attempt_brokers w c [] s = s"
| "attempt_brokers w c (broker # rest) s =
     (case Detour w c (a_dials s) broker of
        Inl e \<Rightarrow>
          attempt_brokers w c rest
            (s\<lparr>a_conn := None, a_err := Some e, a_rc := ErrNetworkError,
               a_dials := Suc (a_dials s), a_log := a_log s @ [DialFailed broker]\<rparr>)
      | Inr cn \<Rightarrow>
          (if fst (ConnectMQTT w cn (a_protocolVersion s)) = Accepted
             then s\<lparr>a_conn := Some cn, a_err := None,
                    a_rc := fst (ConnectMQTT w cn (a_protocolVersion s)),
                    a_sessionPresent := snd (ConnectMQTT w cn (a_protocolVersion s)),
                    a_dials := Suc (a_dials s),
                    a_log := a_log s @ [Handshake broker (a_protocolVersion s)
                               (fst (ConnectMQTT w cn (a_protocolVersion s)))]\<rparr>
           else if \<not> protocolVersionExplicit (options c) \<and> a_protocolVersion s = 4
             then attempt_brokers w c (broker # rest)
                    (s\<lparr>a_conn := Some cn, a_err := None,
                       a_rc := fst (ConnectMQTT w cn (a_protocolVersion s)),
                       a_sessionPresent := snd (ConnectMQTT w cn (a_protocolVersion s)),
                       a_dials := Suc (a_dials s),
                       a_log := a_log s @ [Handshake broker (a_protocolVersion s)
                                  (fst (ConnectMQTT w cn (a_protocolVersion s)))],
                       a_protocolVersion := 3\<rparr>)
           else attempt_brokers w c rest
                  (s\<lparr>a_conn := Some cn, a_err := None,
                     a_rc := fst (ConnectMQTT w cn (a_protocolVersion s)),
                     a_sessionPresent := snd (ConnectMQTT w cn (a_protocolVersion s)),
                     a_dials := Suc (a_dials s),
                     a_log := a_log s @ [Handshake broker (a_protocolVersion s)
                                (fst (ConnectMQTT w cn (a_protocolVersion s)))]\<rparr>)))"
  by pat_completeness auto
termination
  by (relation "measure (\<lambda>(w, c, bs, s).
        2 * length bs
        + (if \<not> protocolVersionExplicit (options c) \<and> a_protocolVersion s = 4 then 1 else 0))")
     auto

text \<open>
  \<open>attemptConnection\<close> returns the client, whose options it changes on success, and
  its results. The zero values of the results stand when the list of brokers is empty.
  After a return code that is neither \<open>Accepted\<close> nor the sentinel the error is the
  entry of the table \<open>packets.ConnErrors\<close>, which is nil when the table has no error
  for the code: the callers then see no error although the broker did not accept.
\<close>

definition attemptConnection :: "world \<Rightarrow> client \<Rightarrow> nat \<Rightarrow> client \<times> attempt" where
  "attemptConnection w c n =
     (let s = attempt_brokers w c (Servers (options c))
                \<lparr>a_conn = None, a_rc = 0, a_sessionPresent = False, a_err = None,
                 a_protocolVersion = ProtocolVersion (options c), a_dials = n, a_log = []\<rparr>
      in if a_rc s = Accepted
           then (c\<lparr>options := (options c)\<lparr>ProtocolVersion := a_protocolVersion s,
                                            protocolVersionExplicit := True\<rparr>\<rparr>, s)
         else if a_rc s \<noteq> ErrNetworkError
           then (c, s\<lparr>a_err := connErrors w (a_rc s)\<rparr>)
         else (c, s\<lparr>a_err := Some (NetworkErrorf (a_rc s) (a_err s))\<rparr>))"

subsection \<open>Starting the comms workers, reserving ids and resuming the store\<close>

text \<open>
  \<open>startCommsWorkers\<close> refuses when a connection is already stored; otherwise it stores
  the connection and sets the status to \<open>connected\<close>. The goroutines it starts
  (keepalive, router, output redirector, comms) run beside the functions modelled here
  and are not part of the model.
\<close>

definition startCommsWorkers :: "client \<Rightarrow> conn option \<Rightarrow> client \<times> bool" where
  "startCommsWorkers c cn =
     (if netconn c \<noteq> None then (c, False)
      else (setConnected connected (c\<lparr>netconn := cn\<rparr>), True))"

definition reserve_key :: "key \<Rightarrow> client \<Rightarrow> client" where
  "reserve_key k c =
     (case store_Get (persist c) k of
        None \<Rightarrow> c
      | Some packet \<Rightarrow>
          (case packet of
             PublishPacket q r tn mid pl \<Rightarrow>
               c\<lparr>msgIds := claimID (PlaceHolderToken mid) mid (msgIds c)\<rparr>
           | _ \<Rightarrow> c))"

definition reserveStoredPublishIDs :: "client \<Rightarrow> client" where
  "reserveStoredPublishIDs c =
     (if \<not> CleanSession (options c) then fold reserve_key (store_All (persist c)) c else c)"

text \<open>
  One round of the loop of \<open>resume\<close>, on the client and on what has been sent on the
  inbound channel \<open>ibound\<close> so far.
\<close>

definition resume_key :: "bool \<Rightarrow> key \<Rightarrow> client \<times> ControlPacket list \<Rightarrow> client \<times> ControlPacket list" where
  "resume_key subscription k ci =
     (let c = fst ci; ibound = snd ci in
      case store_Get (persist c) k of
        None \<Rightarrow> (c, ibound)
      | Some packet \<Rightarrow>
          if isKeyOutbound k then
            (case packet of
               SubscribePacket ts qs mid \<Rightarrow>
                 if subscription then
                   (let token = (newToken SubscribeT)\<lparr>messageID := mid, subs := ts\<rparr>
                    in (c\<lparr>msgIds := claimID (TokenRef token) mid (msgIds c),
                          oboundP := oboundP c @ [(packet, Some token)]\<rparr>, ibound))
                 else (c, ibound)
             | UnsubscribePacket ts mid \<Rightarrow>
                 if subscription then
                   (c\<lparr>oboundP := oboundP c @ [(packet, Some (newToken UnsubscribeT))]\<rparr>, ibound)
                 else (c, ibound)
             | PubrelPacket mid \<Rightarrow> (c\<lparr>oboundP := oboundP c @ [(packet, None)]\<rparr>, ibound)
             | PublishPacket q r tn mid pl \<Rightarrow>
                 (let token = (newToken PublishT)\<lparr>messageID := mid\<rparr>
                  in (c\<lparr>msgIds := claimID (TokenRef token) mid (msgIds c),
                        obound := obound c @ [(packet, Some token)]\<rparr>, ibound))
             | _ \<Rightarrow> (c\<lparr>persist := store_Del k (persist c)\<rparr>, ibound))
          else
            (case packet of
               PubrelPacket mid \<Rightarrow> (c, ibound @ [packet])
             | _ \<Rightarrow> (c\<lparr>persist := store_Del k (persist c)\<rparr>, ibound)))"

definition resume :: "bool \<Rightarrow> client \<Rightarrow> client \<times> ControlPacket list" where
  "resume subscription c = fold (resume_key subscription) (store_All (persist c)) (c, [])"

subsection \<open>Connect\<close>

text \<open>
  \<open>Connect\<close> is the part that runs in the caller, \<open>Connect_call\<close>, which returns the
  token and says whether the worker goroutine is launched, and the worker. The loop of
  the worker at the label \<open>RETRYCONN\<close> need not end, so it takes fuel: \<open>None\<close> is a
  worker that is still retrying after that many attempts. \<open>n\<close> counts the dials and
  \<open>k\<close> the sleeps of the worker. \<open>connect_attempt\<close> is the call of
  \<open>attemptConnection\<close> at the label together with the assignment to \<open>InitialRC\<close>
  that follows it.
\<close>

definition Connect_call :: "client \<Rightarrow> client \<times> Token \<times> bool" where
  "Connect_call c =
     (let t = newToken ConnectT in
      if ConnectRetry (options c) \<and> status c \<noteq> disconnected
        then (c, flowComplete (t\<lparr>returnCode := Accepted\<rparr>), False)
      else
        (let c1 = c\<lparr>persist := store_Open (persist c)\<rparr>;
             c2 = (if ConnectRetry (options c1) then reserveStoredPublishIDs c1 else c1)
         in (setConnected connecting c2, t, True)))"

definition connect_attempt :: "world \<Rightarrow> client \<Rightarrow> nat \<Rightarrow> client \<times> attempt" where
  "connect_attempt w c n =
     (let ca = attemptConnection w c n
      in ((fst ca)\<lparr>InitialRC := a_rc (snd ca)\<rparr>, snd ca))"

fun retryconn :: "nat \<Rightarrow> world \<Rightarrow> client \<Rightarrow> Token \<Rightarrow> nat \<Rightarrow> nat \<Rightarrow> (client \<times> Token) option" where
  "retryconn 0 w c t n k = None"
| "retryconn (Suc fuel) w c t n k =
     (let ca = connect_attempt w c n;
          c1 = fst ca;
          a = snd ca;
          t1 = t\<lparr>sessionPresent := a_sessionPresent a\<rparr>
      in case a_err a of
           Some e \<Rightarrow>
             (let c2 = (if ConnectRetry (options c1) \<and> disconnect_called w k
                        then c1\<lparr>status := disconnected\<rparr> else c1)
              in if ConnectRetry (options c1) \<and> status c2 = connecting
                   then retryconn fuel w c2 t1 (a_dials a) (Suc k)
                 else Some ((setConnected disconnected c2)
                              \<lparr>persist := store_Close (persist c2)\<rparr>,
                            setError (t1\<lparr>returnCode := a_rc a\<rparr>) e))
         | None \<Rightarrow>
             (let cs = startCommsWorkers c1 (a_conn a);
                  c2 = fst cs;
                  c3 = (if snd cs then
                          (if \<not> CleanSession (options c2)
                             then fst (resume (ResumeSubs (options c2)) c2)
                           else c2\<lparr>persist := store_Reset (persist c2)\<rparr>)
                        else c2)
              in Some (c3, flowComplete t1)))"

definition Connect_worker :: "nat \<Rightarrow> world \<Rightarrow> client \<Rightarrow> Token \<Rightarrow> (client \<times> Token) option" where
  "Connect_worker fuel w c t =
     (if length (Servers (options c)) = 0
        then Some (c, setError t (Errorf ''no servers defined to connect to''))
      else retryconn fuel w c t 0 0)"

definition Connect :: "nat \<Rightarrow> world \<Rightarrow> client \<Rightarrow> (client \<times> Token) option" where
  "Connect fuel w c =
     (case Connect_call c of
        (c1, t, launched) \<Rightarrow> if launched then Connect_worker fuel w c1 t else Some (c1, t))"

subsection \<open>The reconnect worker\<close>

text \<open>
  The update of \<open>sleep\<close> at the end of a failed round, on int64 nanoseconds.
\<close>

definition next_sleep :: "Duration \<Rightarrow> Duration \<Rightarrow> Duration" where
  "next_sleep maxInterval sleep =
     (let sleep1 = (if sint sleep < sint maxInterval then sleep * 2 else sleep)
      in if sint sleep1 > sint maxInterval then maxInterval else sleep1)"

text \<open>
  The loop of \<open>reconnect\<close> need not end either. Its result says whether it has ended
  within the fuel, and lists the durations it has slept, oldest first.
\<close>

record reconnect_result =
  r_finished :: bool
  r_client :: client
  r_conn :: "conn option"
  r_slept :: "Duration list"

fun reconnect_loop ::
  "nat \<Rightarrow> world \<Rightarrow> client \<Rightarrow> nat \<Rightarrow> nat \<Rightarrow> Duration \<Rightarrow> conn option \<Rightarrow> Duration list \<Rightarrow> reconnect_result" where
  "reconnect_loop 0 w c n k sleep cn slept =
     \<lparr>r_finished = False, r_client = c, r_conn = cn, r_slept = slept\<rparr>"
| "reconnect_loop (Suc fuel) w c n k sleep cn slept =
     (let ca = attemptConnection w c n;
          c1 = fst ca;
          a = snd ca
      in case a_err a of
           None \<Rightarrow> \<lparr>r_finished = True, r_client = c1, r_conn = a_conn a, r_slept = slept\<rparr>
         | Some e \<Rightarrow>
             (let c2 = (if disconnect_called w k then c1\<lparr>status := disconnected\<rparr> else c1)
              in if status c2 = disconnected
                   then \<lparr>r_finished = True, r_client = c2, r_conn = a_conn a,
                         r_slept = slept @ [sleep]\<rparr>
                 else reconnect_loop fuel w c2 (a_dials a) (Suc k)
                        (next_sleep (MaxReconnectInterval (options c2)) sleep)
                        (a_conn a) (slept @ [sleep])))"

definition reconnect :: "nat \<Rightarrow> world \<Rightarrow> client \<Rightarrow> reconnect_result" where
  "reconnect fuel w c =
     (let r = reconnect_loop fuel w c 0 0 (1 * Second) None [] in
      if \<not> r_finished r then r
      else if connectionStatus (r_client r) = disconnected then r
      else
        (let cs = startCommsWorkers (r_client r) (r_conn r)
         in if snd cs
              then r\<lparr>r_client := fst (resume (ResumeSubs (options (fst cs))) (fst cs))\<rparr>
            else r\<lparr>r_client := fst cs\<rparr>))"

section \<open>Publish, Subscribe and Unsubscribe\<close>

subsection \<open>Sending on a channel under a timeout\<close>

text \<open>
  The \<open>select\<close> at the end of each call sends on an outbound channel or gives up when
  \<open>time.After\<close> fires. Whether a receiver takes the packet is the world's choice:
  \<open>ready\<close> is the number of nanoseconds after which a receiver is there, \<open>None\<close>
  when none comes. The result is the case taken and the nanoseconds waited. A timer
  armed with a duration that is not positive fires at once; when receiver and timer are
  ready at the same instant the timer case is taken.
\<close>

datatype select_result = Sent | TimedOut

definition select_send :: "nat option \<Rightarrow> Duration \<Rightarrow> select_result \<times> int" where
  "select_send ready timeout =
     (case ready of
        Some d \<Rightarrow> if int d < sint timeout then (Sent, int d) else (TimedOut, max 0 (sint timeout))
      | None \<Rightarrow> (TimedOut, max 0 (sint timeout)))"

text \<open>
  The wait each call computes before its \<open>select\<close>: the write timeout, or 30 seconds
  when the option is zero.
\<close>

definition waitTimeout :: "client \<Rightarrow> Duration" where
  "waitTimeout c =
     (if WriteTimeout (options c) = 0 then Second * 30 else WriteTimeout (options c))"

subsection \<open>Publish\<close>

text \<open>
  The payload is an \<open>interface{}\<close>: a string, a byte slice, a \<open>bytes.Buffer\<close> (with its
  unread bytes), or a value of any other type. \<open>Publish\<close> builds its packet before it
  looks at the payload; \<open>pub\<close> is that packet, still without payload and message id,
  \<open>pub0\<close> is the packet with the payload, and \<open>pub1\<close> is the packet with both.
\<close>

datatype payload =
    StringPayload string
  | BytesPayload "byte list"
  | BufferPayload "byte list"
  | OtherPayload

definition payload_bytes :: "payload \<Rightarrow> byte list option" where
  "payload_bytes p =
     (case p of
        StringPayload str \<Rightarrow> Some (map of_char str)
      | BytesPayload bs \<Rightarrow> Some bs
      | BufferPayload bs \<Rightarrow> Some bs
      | OtherPayload \<Rightarrow> None)"

text \<open>
  \<open>Publish_run\<close> is the body of \<open>Publish\<close>. Beside the client and the token it
  gives the local variable \<open>pub\<close> as the call leaves it: \<open>None\<close> when the call returns
  at one of the two guards, before the packet is built, and the packet in every other
  case. \<open>Publish\<close> is what the caller gets.
\<close>

definition Publish_run ::
  "nat option \<Rightarrow> client \<Rightarrow> string \<Rightarrow> byte \<Rightarrow> bool \<Rightarrow> payload
     \<Rightarrow> client \<times> Token \<times> ControlPacket option" where
  "Publish_run ready c topic qos retained pl =
     (let token = newToken PublishT in
      if \<not> IsConnected c then (c, setError token ErrNotConnected, None)
      else if connectionStatus c = reconnecting \<and> qos = 0 then (c, flowComplete token, None)
      else
        (let pub = PublishPacket qos retained topic 0 [] in
         case payload_bytes pl of
           None \<Rightarrow> (c, setError token (Errorf ''unknown payload type''), Some pub)
         | Some bs \<Rightarrow>
             (let pub0 = PublishPacket (Qos pub) (Retain pub) (TopicName pub) (MessageID pub) bs;
                  ids = (if Qos pub0 \<noteq> 0 \<and> MessageID pub0 = 0
                           then getID (TokenRef token) (msgIds c)
                         else (MessageID pub0, msgIds c));
                  mID = fst ids
              in if Qos pub0 \<noteq> 0 \<and> MessageID pub0 = 0 \<and> mID = 0
                   then (c, setError token (Errorf ''no message IDs available''), Some pub0)
                 else
                   (let pub1 = PublishPacket (Qos pub0) (Retain pub0) (TopicName pub0) mID bs;
                        token1 = (if Qos pub0 \<noteq> 0 \<and> MessageID pub0 = 0
                                    then token\<lparr>messageID := mID\<rparr> else token);
                        c1 = c\<lparr>msgIds := snd ids, persist := persistOutbound (persist c) pub1\<rparr>
                    in if connectionStatus c1 = connecting then (c1, token1, Some pub1)
                       else if connectionStatus c1 = reconnecting then (c1, token1, Some pub1)
                       else
                         (case fst (select_send ready (waitTimeout c1)) of
                            Sent \<Rightarrow>
                              (c1\<lparr>obound := obound c1 @ [(pub1, Some token1)]\<rparr>, token1,
                               Some pub1)
                          | TimedOut \<Rightarrow>
                              (c1, setError token1 (Errorf ''publish was broken by timeout''),
                               Some pub1))))))"

definition Publish ::
  "nat option \<Rightarrow> client \<Rightarrow> string \<Rightarrow> byte \<Rightarrow> bool \<Rightarrow> payload \<Rightarrow> client \<times> Token" where
  "Publish ready c topic qos retained pl =
     (case Publish_run ready c topic qos retained pl of (c', token, pub) \<Rightarrow> (c', token))"

subsection \<open>Subscribe and SubscribeMultiple\<close>

text \<open>
  \<open>strings.Split\<close>, \<open>strings.Join\<close>, \<open>strings.HasPrefix\<close> and
  \<open>strings.TrimPrefix\<close>, for a separator of one character.
\<close>

fun Split :: "string \<Rightarrow> char \<Rightarrow> string list" where
  "Split [] sep = [[]]"
| "Split (ch # cs) sep =
     (if ch = sep then [] # Split cs sep
      else (ch # hd (Split cs sep)) # tl (Split cs sep))"

fun Join :: "string list \<Rightarrow> string \<Rightarrow> string" where
  "Join [] sep = []"
| "Join [x] sep = x"
| "Join (x # y # ys) sep = x @ sep @ Join (y # ys) sep"

definition HasPrefix :: "string \<Rightarrow> string \<Rightarrow> bool" where
  "HasPrefix str pre = (take (length pre) str = pre)"

definition TrimPrefix :: "string \<Rightarrow> string \<Rightarrow> string" where
  "TrimPrefix str pre = (if HasPrefix str pre then drop (length pre) str else str)"

text \<open>
  \<open>validateTopicAndQos\<close> and \<open>validateSubscribeMap\<close> are functions of topic.go; they
  are parameters here. The first returns the error it finds, if any; the second returns
  the error or the topics and QoS values of the map. The map of filters is the list of
  its entries in the order in which \<open>range\<close> visits them.
\<close>

definition Subscribe ::
  "(string \<Rightarrow> byte \<Rightarrow> error option) \<Rightarrow> nat option \<Rightarrow> client \<Rightarrow> string \<Rightarrow> byte
     \<Rightarrow> MessageHandler option \<Rightarrow> client \<times> Token" where
  "Subscribe validateTopicAndQos ready c topic qos callback =
     (let token = newToken SubscribeT in
      if \<not> IsConnected c then (c, setError token ErrNotConnected)
      else if \<not> IsConnectionOpen c \<and> \<not> ResumeSubs (options c)
        then (c, setError token (Errorf ''not currently connected and ResumeSubs not set''))
      else if \<not> IsConnectionOpen c \<and> CleanSession (options c)
                \<and> connectionStatus c = reconnecting
        then (c, setError token (Errorf ''reconnecting state and cleansession is true''))
      else
        (case validateTopicAndQos topic qos of
           Some e \<Rightarrow> (c, setError token e)
         | None \<Rightarrow>
             (let topic1 = (if HasPrefix topic ''$share/''
                              then Join (drop 2 (Split topic CHR ''/'')) ''/'' else topic);
                  topic2 = (if HasPrefix topic1 ''$queue/''
                              then TrimPrefix topic1 ''$queue/'' else topic1);
                  c1 = (case callback of
                          Some h \<Rightarrow> c\<lparr>msgRouter := addRoute topic2 h (msgRouter c)\<rparr>
                        | None \<Rightarrow> c);
                  token1 = token\<lparr>subs := subs token @ [topic2]\<rparr>;
                  ids = getID (TokenRef token1) (msgIds c1);
                  mID = fst ids
              in if mID = 0 then (c1, setError token1 (Errorf ''no message IDs available''))
                 else
                   (let sub = SubscribePacket [topic] [qos] mID;
                        token2 = token1\<lparr>messageID := mID\<rparr>;
                        c2 = c1\<lparr>msgIds := snd ids, persist := persistOutbound (persist c1) sub\<rparr>
                    in if connectionStatus c2 = connecting then (c2, token2)
                       else if connectionStatus c2 = reconnecting then (c2, token2)
                       else
                         (case fst (select_send ready (waitTimeout c2)) of
                            Sent \<Rightarrow> (c2\<lparr>oboundP := oboundP c2 @ [(sub, Some token2)]\<rparr>, token2)
                          | TimedOut \<Rightarrow>
                              (c2, setError token2
                                     (Errorf ''subscribe was broken by timeout'')))))))"

definition SubscribeMultiple ::
  "((string \<times> byte) list \<Rightarrow> error + string list \<times> byte list) \<Rightarrow> nat option \<Rightarrow> client
     \<Rightarrow> (string \<times> byte) list \<Rightarrow> MessageHandler option \<Rightarrow> client \<times> Token" where
  "SubscribeMultiple validateSubscribeMap ready c filters callback =
     (let token = newToken SubscribeT in
      if \<not> IsConnected c then (c, setError token ErrNotConnected)
      else if \<not> IsConnectionOpen c \<and> \<not> ResumeSubs (options c)
        then (c, setError token (Errorf ''not currently connected and ResumeSubs not set''))
      else if \<not> IsConnectionOpen c \<and> CleanSession (options c)
                \<and> connectionStatus c = reconnecting
        then (c, setError token (Errorf ''reconnecting state and cleansession is true''))
      else
        (case validateSubscribeMap filters of
           Inl e \<Rightarrow> (c, setError token e)
         | Inr tq \<Rightarrow>
             (let c1 = (case callback of
                          Some h \<Rightarrow>
                            c\<lparr>msgRouter := fold (\<lambda>topic. addRoute topic h) (map fst filters)
                                              (msgRouter c)\<rparr>
                        | None \<Rightarrow> c);
                  token1 = token\<lparr>subs := fst tq\<rparr>;
                  ids = getID (TokenRef token1) (msgIds c1);
                  mID = fst ids
              in if mID = 0 then (c1, setError token1 (Errorf ''no message IDs available''))
                 else
                   (let sub = SubscribePacket (fst tq) (snd tq) mID;
                        token2 = token1\<lparr>messageID := mID\<rparr>;
                        c2 = c1\<lparr>msgIds := snd ids, persist := persistOutbound (persist c1) sub\<rparr>
                    in if connectionStatus c2 = connecting then (c2, token2)
                       else if connectionStatus c2 = reconnecting then (c2, token2)
                       else
                         (case fst (select_send ready (waitTimeout c2)) of
                            Sent \<Rightarrow> (c2\<lparr>oboundP := oboundP c2 @ [(sub, Some token2)]\<rparr>, token2)
                          | TimedOut \<Rightarrow>
                              (c2, setError token2
                                     (Errorf ''subscribe was broken by timeout'')))))))"

subsection \<open>Unsubscribe\<close>

definition Unsubscribe :: "nat option \<Rightarrow> client \<Rightarrow> string list \<Rightarrow> client \<times> Token" where
  "Unsubscribe ready c topics =
     (let token = newToken UnsubscribeT in
      if \<not> IsConnected c then (c, setError token ErrNotConnected)
      else if \<not> IsConnectionOpen c \<and> \<not> ResumeSubs (options c)
        then (c, setError token (Errorf ''not currently connected and ResumeSubs not set''))
      else if \<not> IsConnectionOpen c \<and> CleanSession (options c)
                \<and> connectionStatus c = reconnecting
        then (c, setError token (Errorf ''reconnecting state and cleansession is true''))
      else
        (let ids = getID (TokenRef token) (msgIds c);
             mID = fst ids
         in if mID = 0 then (c, setError token (Errorf ''no message IDs available''))
            else
              (let unsub = UnsubscribePacket topics mID;
                   token1 = token\<lparr>messageID := mID\<rparr>;
                   c1 = c\<lparr>msgIds := snd ids, persist := persistOutbound (persist c) unsub\<rparr>
               in if connectionStatus c1 = connecting then (c1, token1)
                  else if connectionStatus c1 = reconnecting then (c1, token1)
                  else
                    (case fst (select_send ready (waitTimeout c1)) of
                       Sent \<Rightarrow>
                         ((c1\<lparr>oboundP := oboundP c1 @ [(unsub, Some token1)]\<rparr>)
                            \<lparr>msgRouter := fold deleteRoute topics (msgRouter c1)\<rparr>, token1)
                     | TimedOut \<Rightarrow>
                         (c1, setError token1
                                (Errorf ''unsubscribe was broken by timeout''))))))"

section \<open>Inputs of the examples\<close>

text \<open>
  Options with two brokers and everything else at its zero value, except a maximum
  reconnect interval of ten minutes; a world in which every dial succeeds and every
  handshake is refused with return code 5; and the client that \<open>NewClient\<close> builds
  from options without any broker.

  Modelled from the spec: the table \<open>packets.ConnErrors\<close> of the examples. The return
  codes 1 to 5 and the network-error sentinel each have an error of their own;
  \<open>Accepted\<close> and the codes that the spec does not name have none.
\<close>

definition listed_ConnErrors :: "byte \<Rightarrow> error option" where
  "listed_ConnErrors rc =
     (if (1 \<le> rc \<and> rc \<le> 5) \<or> rc = ErrNetworkError then Some (ConnErrors rc) else None)"

definition example_options :: ClientOptions where
  "example_options =
     \<lparr>Servers = [''tcp://a:1883'', ''tcp://b:1883''], CleanSession = False,
      ProtocolVersion = 0, protocolVersionExplicit = False, ConnectRetry = False,
      ConnectRetryInterval = 0, AutoReconnect = False,
      MaxReconnectInterval = 600 * Second, WriteTimeout = 0, ResumeSubs = False,
      DefaultPublishHandler = None, OptStore = None\<rparr>"

definition refusing_world :: world where
  "refusing_world =
     \<lparr>openConnection = (\<lambda>n broker. Inr n), ConnectMQTT = (\<lambda>cn v. (5, False)),
      disconnect_called = (\<lambda>k. False), connErrors = listed_ConnErrors\<rparr>"

definition no_server_client :: client where
  "no_server_client = NewClient (example_options\<lparr>Servers := []\<rparr>)"

text \<open>
  A store that holds an outbound PUBLISH with id 1 from an earlier session, and three
  clients built over it: with the default options, with connect-retry, and with
  connect-retry and a clean session.
\<close>

definition stored_publish :: ControlPacket where
  "stored_publish = PublishPacket 1 False ''a/b'' 1 [104, 105]"

definition resumable_options :: ClientOptions where
  "resumable_options =
     example_options\<lparr>OptStore := Some \<lparr>opened = False,
                                          contents = [(Outbound 1, stored_publish)]\<rparr>\<rparr>"

definition plain_client :: client where
  "plain_client = NewClient resumable_options"

definition retry_client :: client where
  "retry_client = NewClient (resumable_options\<lparr>ConnectRetry := True\<rparr>)"

definition clean_retry_client :: client where
  "clean_retry_client = NewClient (resumable_options\<lparr>ConnectRetry := True, CleanSession := True\<rparr>)"

text \<open>
  A world in which every dial succeeds and every handshake is accepted, and the client
  that a \<open>Connect\<close> in that world leaves behind for given options. The connected
  client is the one for the example options. Then validators that accept every topic.
\<close>

definition accepting_world :: world where
  "accepting_world =
     \<lparr>openConnection = (\<lambda>n broker. Inr n), ConnectMQTT = (\<lambda>cn v. (0, False)),
      disconnect_called = (\<lambda>k. False), connErrors = listed_ConnErrors\<rparr>"

definition connected_with :: "ClientOptions \<Rightarrow> client" where
  "connected_with opts =
     (case Connect 1 accepting_world (NewClient opts) of
        Some (c, t) \<Rightarrow> c
      | None \<Rightarrow> NewClient opts)"

definition connected_client :: client where
  "connected_client = connected_with example_options"

definition accept_topic :: "string \<Rightarrow> byte \<Rightarrow> error option" where
  "accept_topic topic qos = None"

definition accept_map :: "(string \<times> byte) list \<Rightarrow> error + string list \<times> byte list" where
  "accept_map filters = Inr (map fst filters, map snd filters)"

text \<open>
  The connected client with a route for the topic \<open>a/b\<close>, and a map of filters with
  a shared-subscription prefix and a queue prefix.
\<close>

definition routed_client :: client where
  "routed_client = AddRoute ''a/b'' (Some 7) connected_client"

definition prefixed_filters :: "(string \<times> byte) list" where
  "prefixed_filters = [(''$share/g/a/b'', 1), (''$queue/c'', 0)]"

text \<open>
  Clients that have lost their connection and are about to run the reconnect worker:
  they are what a successful \<open>Connect\<close> with auto-reconnect leaves behind (the
  protocol level locked to 4, the store open), after \<open>internalConnLost\<close> has stopped
  the comms workers and set the status to \<open>reconnecting\<close>. They differ in the maximum
  reconnect interval: ten minutes, half a second, and the largest duration there is.
\<close>

definition lost_options :: ClientOptions where
  "lost_options = example_options\<lparr>AutoReconnect := True\<rparr>"

definition lost_client :: client where
  "lost_client = (connected_with lost_options)\<lparr>status := reconnecting, netconn := None\<rparr>"

definition short_max_client :: client where
  "short_max_client =
     (connected_with (lost_options\<lparr>MaxReconnectInterval := 500000000\<rparr>))
       \<lparr>status := reconnecting, netconn := None\<rparr>"

definition huge_max_client :: client where
  "huge_max_client =
     (connected_with (lost_options\<lparr>MaxReconnectInterval := 9223372036854775807\<rparr>))
       \<lparr>status := reconnecting, netconn := None\<rparr>"

text \<open>
  The client as the caller's part of \<open>Connect\<close> hands it to the worker, with the
  example options; a world in which the first broker refuses every handshake with
  return code 5 and the second broker cannot be dialled; and a world that refuses
  every handshake while a concurrent \<open>Disconnect()\<close> arrives during the first sleep.
\<close>

definition connecting_client :: client where
  "connecting_client = fst (Connect_call (NewClient example_options))"

definition half_dead_world :: world where
  "half_dead_world =
     \<lparr>openConnection = (\<lambda>n broker. if broker = ''tcp://b:1883''
                                       then Inl (DialError ''connection refused'') else Inr n),
      ConnectMQTT = (\<lambda>cn v. (5, False)),
      disconnect_called = (\<lambda>k. False), connErrors = listed_ConnErrors\<rparr>"

definition disconnecting_world :: world where
  "disconnecting_world =
     \<lparr>openConnection = (\<lambda>n broker. Inr n), ConnectMQTT = (\<lambda>cn v. (5, False)),
      disconnect_called = (\<lambda>k. True), connErrors = listed_ConnErrors\<rparr>"

text \<open>
  A world in which the first two handshakes are refused with return code 5 and every
  later handshake fails on the transport, so that \<open>ConnectMQTT\<close> returns the sentinel
  without having read a CONNACK; and a world in which every handshake is answered with
  return code 6, for which the table of the examples has no error.
\<close>

definition transport_dead_world :: world where
  "transport_dead_world =
     \<lparr>openConnection = (\<lambda>n broker. Inr n),
      ConnectMQTT = (\<lambda>cn v. if cn < 2 then (5, False) else (ErrNetworkError, False)),
      disconnect_called = (\<lambda>k. False), connErrors = listed_ConnErrors\<rparr>"

definition unlisted_world :: world where
  "unlisted_world =
     \<lparr>openConnection = (\<lambda>n broker. Inr n), ConnectMQTT = (\<lambda>cn v. (6, False)),
      disconnect_called = (\<lambda>k. False), connErrors = listed_ConnErrors\<rparr>"

text \<open>The broker and the protocol level of an entry of the log, and its return code.\<close>

definition ev_broker :: "dial_event \<Rightarrow> string" where
  "ev_broker e = (case e of DialFailed b \<Rightarrow> b | Handshake b v rc \<Rightarrow> b)"

definition ev_level :: "dial_event \<Rightarrow> nat option" where
  "ev_level e = (case e of DialFailed b \<Rightarrow> None | Handshake b v rc \<Rightarrow> Some v)"

definition ev_rc :: "dial_event \<Rightarrow> byte" where
  "ev_rc e = (case e of DialFailed b \<Rightarrow> ErrNetworkError | Handshake b v rc \<Rightarrow> rc)"

text \<open>
  The return codes of the CONNACKs that an attempt has observed, oldest first: the last
  one is the return code of the most recently observed CONNACK. A failed dial observes
  no CONNACK, and neither does a handshake for which \<open>ConnectMQTT\<close> returns the
  network-error sentinel: it failed on the transport.
\<close>

definition connack_codes :: "dial_event list \<Rightarrow> byte list" where
  "connack_codes log =
     concat (map (\<lambda>e. case e of
                         DialFailed b \<Rightarrow> []
                       | Handshake b v rc \<Rightarrow> if rc = ErrNetworkError then [] else [rc]) log)"

section \<open>Properties\<close>

subsection \<open>Fields that the helpers leave alone\<close>

lemma reserve_key_fields:
  "status (reserve_key k c) = status c" "persist (reserve_key k c) = persist c"
  "options (reserve_key k c) = options c" "InitialRC (reserve_key k c) = InitialRC c"
  "msgRouter (reserve_key k c) = msgRouter c" "obound (reserve_key k c) = obound c"
  "oboundP (reserve_key k c) = oboundP c" "netconn (reserve_key k c) = netconn c"
  by (simp_all add: reserve_key_def split: option.splits ControlPacket.splits)

lemma fold_reserve_key_fields:
  "status (fold reserve_key ks c) = status c \<and> persist (fold reserve_key ks c) = persist c
   \<and> options (fold reserve_key ks c) = options c
   \<and> InitialRC (fold reserve_key ks c) = InitialRC c
   \<and> msgRouter (fold reserve_key ks c) = msgRouter c
   \<and> obound (fold reserve_key ks c) = obound c
   \<and> oboundP (fold reserve_key ks c) = oboundP c
   \<and> netconn (fold reserve_key ks c) = netconn c"
  by (induction ks arbitrary: c) (simp_all add: reserve_key_fields)

lemma reserveStoredPublishIDs_fields:
  "status (reserveStoredPublishIDs c) = status c"
  "persist (reserveStoredPublishIDs c) = persist c"
  "options (reserveStoredPublishIDs c) = options c"
  "InitialRC (reserveStoredPublishIDs c) = InitialRC c"
  "msgRouter (reserveStoredPublishIDs c) = msgRouter c"
  "obound (reserveStoredPublishIDs c) = obound c"
  "oboundP (reserveStoredPublishIDs c) = oboundP c"
  "netconn (reserveStoredPublishIDs c) = netconn c"
  by (simp_all add: reserveStoredPublishIDs_def fold_reserve_key_fields)

lemma Connect_call_launched:
  "status c = disconnected \<Longrightarrow>
   Connect_call c =
     (setConnected connecting
        (if ConnectRetry (options c)
         then reserveStoredPublishIDs (c\<lparr>persist := store_Open (persist c)\<rparr>)
         else c\<lparr>persist := store_Open (persist c)\<rparr>), newToken ConnectT, True)"
  by (simp add: Connect_call_def Let_def)

subsection \<open>What Publish returns\<close>

lemma Publish_eq:
  "Publish ready c topic qos retained pl =
     (let token = newToken PublishT in
      if \<not> IsConnected c then (c, setError token ErrNotConnected)
      else if connectionStatus c = reconnecting \<and> qos = 0 then (c, flowComplete token)
      else
        (let pub = PublishPacket qos retained topic 0 [] in
         case payload_bytes pl of
           None \<Rightarrow> (c, setError token (Errorf ''unknown payload type''))
         | Some bs \<Rightarrow>
             (let ids = (if Qos pub \<noteq> 0 \<and> MessageID pub = 0
                           then getID (TokenRef token) (msgIds c)
                         else (MessageID pub, msgIds c));
                  mID = fst ids
              in if Qos pub \<noteq> 0 \<and> MessageID pub = 0 \<and> mID = 0
                   then (c, setError token (Errorf ''no message IDs available''))
                 else
                   (let pub1 = PublishPacket (Qos pub) (Retain pub) (TopicName pub) mID bs;
                        token1 = (if Qos pub \<noteq> 0 \<and> MessageID pub = 0
                                    then token\<lparr>messageID := mID\<rparr> else token);
                        c1 = c\<lparr>msgIds := snd ids, persist := persistOutbound (persist c) pub1\<rparr>
                    in if connectionStatus c1 = connecting then (c1, token1)
                       else if connectionStatus c1 = reconnecting then (c1, token1)
                       else
                         (case fst (select_send ready (waitTimeout c1)) of
                            Sent \<Rightarrow> (c1\<lparr>obound := obound c1 @ [(pub1, Some token1)]\<rparr>, token1)
                          | TimedOut \<Rightarrow>
                              (c1, setError token1 (Errorf ''publish was broken by timeout'')))))))"
  by (simp add: Publish_def Publish_run_def Let_def
      split: option.splits select_result.splits)

subsection \<open>Evaluating the examples\<close>

lemma scan_free_numeral:
  "scan_free (numeral k) i m =
     (let j = next_id i in if m j = None then j else scan_free (pred_numeral k) j m)"
  by (simp add: numeral_eq_Suc)

lemmas connect_defs =
  connected_with_def Connect_def Connect_worker_def connect_attempt_def attemptConnection_def
  accepting_world_def Detour_def Accepted_def ErrNetworkError_def startCommsWorkers_def
  resume_def NewClient_def example_options_def lost_options_def Connect_call_def Let_def
  store_Open_def store_All_def setConnected_def disconnected_def connecting_def connected_def
  reconnecting_def NewMemoryStore_def newRouter_def setDefaultHandler_def newToken_def
  flowComplete_def

lemma connected_client_value:
  "connected_client =
     \<lparr>status = 3, msgIds = \<lparr>index = Map.empty, cursor = 0\<rparr>, obound = [],
      oboundP = [], msgRouter = \<lparr>routes = Map.empty, defaultHandler = None\<rparr>,
      persist = \<lparr>opened = True, contents = []\<rparr>,
      options =
        \<lparr>Servers = [''tcp://a:1883'', ''tcp://b:1883''], CleanSession = False,
         ProtocolVersion = 4, protocolVersionExplicit = True, ConnectRetry = False,
         ConnectRetryInterval = 0, AutoReconnect = False,
         MaxReconnectInterval = 600 * Second, WriteTimeout = 0, ResumeSubs = False,
         DefaultPublishHandler = None, OptStore = Some \<lparr>opened = False, contents = []\<rparr>\<rparr>,
      netconn = Some 0, InitialRC = 0, useCallback = False,
      connectCallback = (\<lambda>n. Inl (Errorf []))\<rparr>"
  by (simp add: connected_client_def connect_defs)

lemma listed_ConnErrors_simps [simp]:
  "listed_ConnErrors 5 = Some (ConnErrors 5)" "listed_ConnErrors 6 = None"
  "listed_ConnErrors 254 = Some (ConnErrors 254)"
  by (simp_all add: listed_ConnErrors_def ErrNetworkError_def)

lemmas example_defs =
  NewClient_def plain_client_def retry_client_def clean_retry_client_def connected_client_value
  resumable_options_def example_options_def stored_publish_def
  Connect_call_def Let_def reserveStoredPublishIDs_def reserve_key_def store_Open_def
  store_All_def store_Get_def claimID_def setConnected_def disconnected_def connecting_def
  connected_def reconnecting_def NewMemoryStore_def newRouter_def setDefaultHandler_def
  newToken_def IsConnected_def IsConnectionOpen_def connectionStatus_def payload_bytes_def
  getID_def scan_free_numeral next_id_def setError_def flowComplete_def

subsection \<open>The connection is open exactly when the status is connected\<close>

text \<open>
  Claim C4. \<open>IsConnectionOpen\<close> is true if and only if the status is \<open>connected\<close>; it
  is false in \<open>disconnected\<close>, \<open>connecting\<close> and \<open>reconnecting\<close>.
\<close>

theorem IsConnectionOpen_iff_connected:
  "(IsConnectionOpen c \<longleftrightarrow> status c = connected)
   \<and> \<not> IsConnectionOpen (c\<lparr>status := disconnected\<rparr>)
   \<and> \<not> IsConnectionOpen (c\<lparr>status := connecting\<rparr>)
   \<and> \<not> IsConnectionOpen (c\<lparr>status := reconnecting\<rparr>)"
  by (simp add: IsConnectionOpen_def connected_def disconnected_def connecting_def
      reconnecting_def)

subsection \<open>Connect without any broker\<close>

text \<open>
  Claim C10. When \<open>Connect\<close> is called in status \<open>disconnected\<close> and the list of
  servers is empty, the worker returns at once, whatever its fuel: the token is
  completed with the error "no servers defined to connect to", and the client is left
  as the caller's part of \<open>Connect\<close> left it, with status \<open>connecting\<close> and the store
  open. The status is not set back to \<open>disconnected\<close> and the store is not closed, as
  they are when the brokers of a non-empty list all refuse (the last part of the
  example that follows the theorem).
\<close>

theorem Connect_no_servers:
  assumes "status c = disconnected" and "Servers (options c) = []"
  shows "Connect fuel w c
           = Some (fst (Connect_call c),
                   setError (newToken ConnectT) (Errorf ''no servers defined to connect to''))
     \<and> err (setError (newToken ConnectT) (Errorf ''no servers defined to connect to''))
          = Some (Errorf ''no servers defined to connect to'')
     \<and> complete (setError (newToken ConnectT) (Errorf ''no servers defined to connect to''))
     \<and> status (fst (Connect_call c)) = connecting
     \<and> status (fst (Connect_call c)) \<noteq> disconnected
     \<and> opened (persist (fst (Connect_call c)))"
  using assms
  by (simp add: Connect_def Connect_call_launched Connect_worker_def setConnected_def
      reserveStoredPublishIDs_fields store_Open_def setError_def flowComplete_def
      connecting_def disconnected_def)

theorem Connect_no_servers_witness:
  "status no_server_client = disconnected \<and> Servers (options no_server_client) = []
   \<and> Connect 0 refusing_world no_server_client
        = Some (fst (Connect_call no_server_client),
                setError (newToken ConnectT) (Errorf ''no servers defined to connect to''))
   \<and> status (fst (Connect_call no_server_client)) = connecting
   \<and> opened (persist (fst (Connect_call no_server_client)))
   \<and> map_option (\<lambda>ct. (status (fst ct), opened (persist (fst ct)), err (snd ct)))
         (Connect 1 refusing_world (NewClient example_options))
       = Some (disconnected, False, Some (ConnErrors 5))"
proof -
  have a: "status no_server_client = disconnected"
    by (simp add: no_server_client_def NewClient_def Let_def)
  have b: "Servers (options no_server_client) = []"
    by (simp add: no_server_client_def NewClient_def example_options_def Let_def)
  have c: "map_option (\<lambda>ct. (status (fst ct), opened (persist (fst ct)), err (snd ct)))
         (Connect 1 refusing_world (NewClient example_options))
       = Some (disconnected, False, Some (ConnErrors 5))"
    by (simp add: Connect_def Connect_worker_def connect_attempt_def attemptConnection_def
        example_defs refusing_world_def Detour_def Accepted_def ErrNetworkError_def
        store_Close_def)
  from Connect_no_servers [OF a b, of 0 refusing_world] a b c show ?thesis by simp
qed

subsection \<open>The registry and the store\<close>

lemma scan_free_free: "scan_free n i m = j \<Longrightarrow> j \<noteq> 0 \<Longrightarrow> m j = None"
  by (induction n arbitrary: i) (auto simp: Let_def split: if_splits)

lemma getID_fresh: "fst (getID t mids) \<noteq> 0 \<Longrightarrow> index mids (fst (getID t mids)) = None"
  using scan_free_free [OF refl, of 65535 "cursor mids" "index mids"]
  by (auto simp: getID_def Let_def split: if_splits)

lemma claimID_dom: "dom (index (claimID t i mids)) = insert i (dom (index mids))"
  by (auto simp: claimID_def)


lemma store_Get_in_All: "store_Get s k = Some p \<Longrightarrow> k \<in> set (store_All s)"
  by (auto simp: store_Get_def store_All_def dest: map_of_SomeD intro: rev_image_eqI)


subsection \<open>Ids reserved by Connect\<close>

lemma reserve_key_mono: "dom (index (msgIds c)) \<subseteq> dom (index (msgIds (reserve_key k c)))"
  by (auto simp: reserve_key_def claimID_dom split: option.splits ControlPacket.splits)

lemma reserve_key_claims:
  "store_Get (persist c) k = Some (PublishPacket q r tn mid pl) \<Longrightarrow>
   mid \<in> dom (index (msgIds (reserve_key k c)))"
  by (simp add: reserve_key_def claimID_dom)

lemma fold_reserve_key_mono:
  "dom (index (msgIds c)) \<subseteq> dom (index (msgIds (fold reserve_key ks c)))"
proof (induction ks arbitrary: c)
  case Nil
  show ?case by simp
next
  case (Cons a ks)
  have "dom (index (msgIds c)) \<subseteq> dom (index (msgIds (reserve_key a c)))"
    by (rule reserve_key_mono)
  also have "\<dots> \<subseteq> dom (index (msgIds (fold reserve_key ks (reserve_key a c))))"
    by (rule Cons.IH)
  finally show ?case by simp
qed

lemma fold_reserve_key_claims:
  "k \<in> set ks \<Longrightarrow> store_Get (persist c) k = Some (PublishPacket q r tn mid pl) \<Longrightarrow>
   mid \<in> dom (index (msgIds (fold reserve_key ks c)))"
proof (induction ks arbitrary: c)
  case Nil
  then show ?case by simp
next
  case (Cons a ks)
  show ?case
  proof (cases "a = k")
    case True
    have "mid \<in> dom (index (msgIds (reserve_key a c)))"
      using Cons.prems(2) True by (simp add: reserve_key_claims)
    then show ?thesis using fold_reserve_key_mono [of "reserve_key a c" ks] by auto
  next
    case False
    with Cons.prems have "k \<in> set ks" by simp
    moreover have "store_Get (persist (reserve_key a c)) k = Some (PublishPacket q r tn mid pl)"
      using Cons.prems(2) by (simp add: reserve_key_fields)
    ultimately show ?thesis using Cons.IH by simp
  qed
qed

lemma reserveStoredPublishIDs_claims:
  "\<not> CleanSession (options c) \<Longrightarrow> store_Get (persist c) k = Some (PublishPacket q r tn mid pl)
   \<Longrightarrow> mid \<in> dom (index (msgIds (reserveStoredPublishIDs c)))"
  using fold_reserve_key_claims [of k "store_All (persist c)" c q r tn mid pl]
  by (simp add: reserveStoredPublishIDs_def store_Get_in_All)

lemma Publish_fresh_id:
  "Publish ready c topic qos retained pl = (c', t) \<Longrightarrow> qos \<noteq> 0 \<Longrightarrow> err t = None \<Longrightarrow>
   index (msgIds c) (messageID t) = None \<and> messageID t \<noteq> 0"
  using getID_fresh [of "TokenRef (newToken PublishT)" "msgIds c"]
  by (auto simp add: Publish_eq Let_def setError_def flowComplete_def
      split: if_splits option.splits select_result.splits)

text \<open>
  Claim C1, as amended. When \<open>Connect\<close> goes past its guard and launches the worker,
  the client is in status \<open>connecting\<close> before the worker makes any attempt. If
  connect-retry is enabled and the session is not clean, the id of every PUBLISH packet
  that the store returns is then live in the registry, so a \<open>Publish\<close> with a QoS of at
  least 1 that completes without error in that state has an id different from all of
  them. If connect-retry is disabled or the session is clean, \<open>Connect\<close> reserves
  nothing: the registry is as it was.
\<close>

theorem Connect_reserves_stored_publish_ids:
  assumes "Connect_call c = (c1, t0, True)"
  shows "status c1 = connecting
    \<and> (ConnectRetry (options c) \<and> \<not> CleanSession (options c) \<longrightarrow>
         (\<forall>k q r tn mid pl. store_Get (persist c1) k = Some (PublishPacket q r tn mid pl)
             \<longrightarrow> index (msgIds c1) mid \<noteq> None)
       \<and> (\<forall>ready topic qos retained pl c2 t k q r tn mid pl'.
             Publish ready c1 topic qos retained pl = (c2, t) \<and> qos \<noteq> 0 \<and> err t = None
             \<and> store_Get (persist c1) k = Some (PublishPacket q r tn mid pl')
             \<longrightarrow> messageID t \<noteq> mid))
    \<and> (\<not> ConnectRetry (options c) \<or> CleanSession (options c) \<longrightarrow> msgIds c1 = msgIds c)"
proof -
  from assms have c1: "c1 = setConnected connecting
        (if ConnectRetry (options c)
         then reserveStoredPublishIDs (c\<lparr>persist := store_Open (persist c)\<rparr>)
         else c\<lparr>persist := store_Open (persist c)\<rparr>)"
    by (auto simp: Connect_call_def Let_def split: if_splits)
  have st: "status c1 = connecting" by (simp add: c1 setConnected_def)
  have off: "\<not> ConnectRetry (options c) \<or> CleanSession (options c) \<longrightarrow> msgIds c1 = msgIds c"
    by (auto simp: c1 setConnected_def reserveStoredPublishIDs_def)
  have on: "index (msgIds c1) mid \<noteq> None"
    if "ConnectRetry (options c)" "\<not> CleanSession (options c)"
      "store_Get (persist c1) k = Some (PublishPacket q r tn mid pl)" for k q r tn mid pl
  proof -
    from that have "store_Get (persist (c\<lparr>persist := store_Open (persist c)\<rparr>)) k
        = Some (PublishPacket q r tn mid pl)"
      by (simp add: c1 setConnected_def reserveStoredPublishIDs_fields)
    with that(2)
    have "mid \<in> dom (index (msgIds (reserveStoredPublishIDs (c\<lparr>persist := store_Open (persist c)\<rparr>))))"
      by (intro reserveStoredPublishIDs_claims) simp_all
    with that(1) show ?thesis by (auto simp: c1 setConnected_def)
  qed
  show ?thesis
    using st off on Publish_fresh_id by (metis option.distinct(1))
qed

theorem Connect_reserves_stored_publish_ids_witness:
  "Connect_call retry_client = (fst (Connect_call retry_client), newToken ConnectT, True)
   \<and> ConnectRetry (options retry_client) \<and> \<not> CleanSession (options retry_client)
   \<and> status (fst (Connect_call retry_client)) = connecting
   \<and> store_Get (persist (fst (Connect_call retry_client))) (Outbound 1) = Some stored_publish
   \<and> index (msgIds (fst (Connect_call retry_client))) 1 \<noteq> None
   \<and> err (snd (Publish None (fst (Connect_call retry_client)) ''x'' 1 False (BytesPayload []))) = None
   \<and> messageID (snd (Publish None (fst (Connect_call retry_client)) ''x'' 1 False (BytesPayload []))) \<noteq> 1"
proof -
  let ?c1 = "fst (Connect_call retry_client)"
  let ?R = "Publish None ?c1 ''x'' 1 False (BytesPayload [])"
  have h: "Connect_call retry_client = (?c1, newToken ConnectT, True)"
    by (simp add: example_defs)
  have o: "ConnectRetry (options retry_client) \<and> \<not> CleanSession (options retry_client)"
    by (simp add: example_defs)
  have g: "store_Get (persist ?c1) (Outbound 1) = Some (PublishPacket 1 False ''a/b'' 1 [104, 105])"
    by (simp add: example_defs)
  have e: "err (snd ?R) = None"
    by (simp add: example_defs Publish_eq)
  have r: "?R = (fst ?R, snd ?R)" by simp
  from Connect_reserves_stored_publish_ids [OF h] o
  have st: "status ?c1 = connecting"
    and live: "\<And>k q r tn mid pl. store_Get (persist ?c1) k = Some (PublishPacket q r tn mid pl)
             \<Longrightarrow> index (msgIds ?c1) mid \<noteq> None"
    and fresh: "\<And>ready topic qos retained pl c2 t k q r tn mid pl'.
             Publish ready ?c1 topic qos retained pl = (c2, t) \<Longrightarrow> qos \<noteq> 0 \<Longrightarrow> err t = None
             \<Longrightarrow> store_Get (persist ?c1) k = Some (PublishPacket q r tn mid pl')
             \<Longrightarrow> messageID t \<noteq> mid"
    by blast+
  have "index (msgIds ?c1) 1 \<noteq> None" using live [OF g] .
  moreover have "messageID (snd ?R) \<noteq> 1" using fresh [OF r _ e g] by simp
  ultimately show ?thesis using h o st g e by (simp add: stored_publish_def)
qed

theorem Connect_reserves_nothing_counterexample:
  "snd (snd (Connect_call plain_client))
   \<and> store_Get (persist (fst (Connect_call plain_client))) (Outbound 1) = Some stored_publish
   \<and> index (msgIds (fst (Connect_call plain_client))) (MessageID stored_publish) = None
   \<and> snd (snd (Connect_call clean_retry_client))
   \<and> status (fst (Connect_call clean_retry_client)) = connecting
   \<and> store_Get (persist (fst (Connect_call clean_retry_client))) (Outbound 1) = Some stored_publish
   \<and> err (snd (Publish None (fst (Connect_call clean_retry_client)) ''x'' 1 False (BytesPayload []))) = None
   \<and> messageID (snd (Publish None (fst (Connect_call clean_retry_client)) ''x'' 1 False (BytesPayload [])))
       = MessageID stored_publish"
  by (simp add: example_defs Publish_eq)

subsection \<open>Payload types of Publish\<close>

lemma waitTimeout_upd [simp]:
  "waitTimeout (c\<lparr>msgIds := m\<rparr>) = waitTimeout c"
  "waitTimeout (c\<lparr>persist := p\<rparr>) = waitTimeout c"
  "waitTimeout (c\<lparr>msgRouter := r\<rparr>) = waitTimeout c"
  by (simp_all add: waitTimeout_def)

lemma Publish_unknown_payload:
  "IsConnected c \<Longrightarrow> \<not> (connectionStatus c = reconnecting \<and> qos = 0) \<Longrightarrow>
   Publish ready c topic qos retained OtherPayload
     = (c, setError (newToken PublishT) (Errorf ''unknown payload type''))"
  by (auto simp add: Publish_eq payload_bytes_def Let_def)

lemma Publish_accepted:
  assumes "payload_bytes pl = Some bs"
  shows "err (snd (Publish ready c topic qos retained pl)) \<noteq> Some (Errorf ''unknown payload type'')
    \<and> (obound (fst (Publish ready c topic qos retained pl)) = obound c
        \<or> (\<exists>mid t. obound (fst (Publish ready c topic qos retained pl))
                   = obound c @ [(PublishPacket qos retained topic mid bs, Some t)]))
    \<and> (persist (fst (Publish ready c topic qos retained pl)) = persist c
        \<or> (\<exists>mid. persist (fst (Publish ready c topic qos retained pl))
                   = persistOutbound (persist c) (PublishPacket qos retained topic mid bs)))"
  using assms
  by (auto simp: Publish_eq Let_def setError_def flowComplete_def newToken_def connectionStatus_def
       split: select_result.splits)

lemma Publish_run_unknown_payload:
  "IsConnected c \<Longrightarrow> \<not> (connectionStatus c = reconnecting \<and> qos = 0) \<Longrightarrow>
   Publish_run ready c topic qos retained OtherPayload
     = (c, setError (newToken PublishT) (Errorf ''unknown payload type''),
        Some (PublishPacket qos retained topic 0 []))"
  by (auto simp add: Publish_run_def payload_bytes_def Let_def)

lemma Publish_run_packet:
  assumes "IsConnected c" "\<not> (connectionStatus c = reconnecting \<and> qos = 0)"
    "payload_bytes pl = Some bs"
  shows "snd (snd (Publish_run ready c topic qos retained pl))
     = Some (PublishPacket qos retained topic
               (if qos \<noteq> 0 then fst (getID (TokenRef (newToken PublishT)) (msgIds c)) else 0) bs)"
  using assms
  by (cases "fst (select_send ready (waitTimeout c))")
     (simp_all add: Publish_run_def Let_def connectionStatus_def)

lemma Publish_result:
  assumes "IsConnected c" "\<not> (connectionStatus c = reconnecting \<and> qos = 0)"
    "payload_bytes pl = Some bs"
  shows "Publish ready c topic qos retained pl =
     (let ids = (if qos \<noteq> 0 then getID (TokenRef (newToken PublishT)) (msgIds c)
                 else (0, msgIds c));
          pub = PublishPacket qos retained topic (fst ids) bs;
          token = (if qos \<noteq> 0 then (newToken PublishT)\<lparr>messageID := fst ids\<rparr>
                   else newToken PublishT);
          c1 = c\<lparr>msgIds := snd ids, persist := persistOutbound (persist c) pub\<rparr>
      in if qos \<noteq> 0 \<and> fst ids = 0
           then (c, setError (newToken PublishT) (Errorf ''no message IDs available''))
         else if connectionStatus c = connecting \<or> connectionStatus c = reconnecting
           then (c1, token)
         else if fst (select_send ready (waitTimeout c)) = Sent
           then (c1\<lparr>obound := obound c @ [(pub, Some token)]\<rparr>, token)
         else (c1, setError token (Errorf ''publish was broken by timeout'')))"
  using assms
  by (cases "fst (select_send ready (waitTimeout c))")
     (simp_all add: Publish_eq Let_def connectionStatus_def)

text \<open>
  Claim C8, as amended. For a \<open>Publish\<close> call that passes the two guards on the
  connection state, the packet is built, with its QoS, topic and retain flag, before
  the payload is looked at. A payload of any type other than string, byte slice and
  byte buffer completes the token with the error "unknown payload type" and leaves
  the client as it was: the packet that was built gets no payload and no message id,
  no id is claimed, nothing is persisted and nothing is enqueued. A string is converted
  to its bytes, a byte slice and a buffer are taken as they are, and the call then
  depends on the payload through these bytes only: the token never carries that error,
  the packet carries the bytes, and the call claims an id when the QoS is not zero,
  fails with "no message IDs available" when there is none, persists the packet
  otherwise, and then returns in the statuses \<open>connecting\<close> and \<open>reconnecting\<close>,
  appends the packet and the token to the outbound channel when a receiver takes them
  in time, and sets the timeout error when none does.
\<close>

theorem Publish_payload_types:
  assumes "IsConnected c" and "\<not> (connectionStatus c = reconnecting \<and> qos = 0)"
  shows "Publish_run ready c topic qos retained OtherPayload
           = (c, setError (newToken PublishT) (Errorf ''unknown payload type''),
              Some (PublishPacket qos retained topic 0 []))
    \<and> Publish ready c topic qos retained OtherPayload
           = (c, setError (newToken PublishT) (Errorf ''unknown payload type''))
    \<and> err (setError (newToken PublishT) (Errorf ''unknown payload type''))
         = Some (Errorf ''unknown payload type'')
    \<and> complete (setError (newToken PublishT) (Errorf ''unknown payload type''))
    \<and> payload_bytes (StringPayload str) = Some (map of_char str)
    \<and> payload_bytes (BytesPayload bs') = Some bs'
    \<and> payload_bytes (BufferPayload bs') = Some bs'
    \<and> (payload_bytes pl = Some bs \<longrightarrow>
          err (snd (Publish ready c topic qos retained pl)) \<noteq> Some (Errorf ''unknown payload type'')
        \<and> (obound (fst (Publish ready c topic qos retained pl)) = obound c
           \<or> (\<exists>mid t. obound (fst (Publish ready c topic qos retained pl))
                   = obound c @ [(PublishPacket qos retained topic mid bs, Some t)]))
        \<and> (persist (fst (Publish ready c topic qos retained pl)) = persist c
           \<or> (\<exists>mid. persist (fst (Publish ready c topic qos retained pl))
                   = persistOutbound (persist c) (PublishPacket qos retained topic mid bs)))
        \<and> Publish ready c topic qos retained pl
            = Publish ready c topic qos retained (BytesPayload bs)
        \<and> snd (snd (Publish_run ready c topic qos retained pl))
            = Some (PublishPacket qos retained topic
                      (if qos \<noteq> 0 then fst (getID (TokenRef (newToken PublishT)) (msgIds c))
                       else 0) bs)
        \<and> Publish ready c topic qos retained pl =
            (let ids = (if qos \<noteq> 0 then getID (TokenRef (newToken PublishT)) (msgIds c)
                        else (0, msgIds c));
                 pub = PublishPacket qos retained topic (fst ids) bs;
                 token = (if qos \<noteq> 0 then (newToken PublishT)\<lparr>messageID := fst ids\<rparr>
                          else newToken PublishT);
                 c1 = c\<lparr>msgIds := snd ids, persist := persistOutbound (persist c) pub\<rparr>
             in if qos \<noteq> 0 \<and> fst ids = 0
                  then (c, setError (newToken PublishT) (Errorf ''no message IDs available''))
                else if connectionStatus c = connecting \<or> connectionStatus c = reconnecting
                  then (c1, token)
                else if fst (select_send ready (waitTimeout c)) = Sent
                  then (c1\<lparr>obound := obound c @ [(pub, Some token)]\<rparr>, token)
                else (c1, setError token (Errorf ''publish was broken by timeout''))))"
proof -
  have 1: "Publish_run ready c topic qos retained OtherPayload
           = (c, setError (newToken PublishT) (Errorf ''unknown payload type''),
              Some (PublishPacket qos retained topic 0 []))"
    by (rule Publish_run_unknown_payload [OF assms])
  have 2: "Publish ready c topic qos retained OtherPayload
           = (c, setError (newToken PublishT) (Errorf ''unknown payload type''))"
    by (rule Publish_unknown_payload [OF assms])
  have 3: "err (setError (newToken PublishT) (Errorf ''unknown payload type''))
         = Some (Errorf ''unknown payload type'')
    \<and> complete (setError (newToken PublishT) (Errorf ''unknown payload type''))"
    by (simp add: setError_def flowComplete_def)
  have 4: "payload_bytes (StringPayload str) = Some (map of_char str)
    \<and> payload_bytes (BytesPayload bs') = Some bs'
    \<and> payload_bytes (BufferPayload bs') = Some bs'"
    by (simp add: payload_bytes_def)
  have 5: "payload_bytes pl = Some bs \<Longrightarrow>
       Publish ready c topic qos retained pl
         = Publish ready c topic qos retained (BytesPayload bs)"
  proof -
    assume p: "payload_bytes pl = Some bs"
    have q: "payload_bytes (BytesPayload bs) = Some bs" by (simp add: payload_bytes_def)
    show ?thesis by (simp only: Publish_result [OF assms p] Publish_result [OF assms q])
  qed
  from 1 2 3 4 5 Publish_accepted [of pl bs ready c topic qos retained]
    Publish_run_packet [OF assms, of pl bs ready topic retained]
    Publish_result [OF assms, of pl bs ready topic retained]
  show ?thesis by blast
qed

lemma lost_client_publishing:
  "IsConnected lost_client" "connectionStatus lost_client = reconnecting"
  "getID (TokenRef (newToken PublishT)) (msgIds lost_client)
     = (1, \<lparr>index = [1 \<mapsto> TokenRef (newToken PublishT)], cursor = 1\<rparr>)"
  "obound lost_client = []" "persist lost_client = \<lparr>opened = True, contents = []\<rparr>"
  by (simp_all add: lost_client_def connect_defs IsConnected_def connectionStatus_def
      getID_def scan_free_numeral next_id_def)

lemma connected_client_publishing:
  "IsConnected connected_client" "connectionStatus connected_client = connected"
  "getID (TokenRef (newToken PublishT)) (msgIds connected_client)
     = (1, \<lparr>index = [1 \<mapsto> TokenRef (newToken PublishT)], cursor = 1\<rparr>)"
  "obound connected_client = []" "persist connected_client = \<lparr>opened = True, contents = []\<rparr>"
  "fst (select_send (Some 0) (waitTimeout connected_client)) = Sent"
  by (simp_all add: example_defs select_send_def waitTimeout_def Second_def)

theorem Publish_payload_types_witness:
  "IsConnected connected_client
   \<and> \<not> (connectionStatus connected_client = reconnecting \<and> (1::byte) = 0)
   \<and> Publish_run (Some 0) connected_client ''a/b'' 1 False OtherPayload
        = (connected_client, setError (newToken PublishT) (Errorf ''unknown payload type''),
           Some (PublishPacket 1 False ''a/b'' 0 []))
   \<and> payload_bytes (StringPayload ''hi'') = Some [104, 105]
   \<and> Publish (Some 0) connected_client ''a/b'' 1 False (StringPayload ''hi'')
        = (connected_client
             \<lparr>msgIds := \<lparr>index = [1 \<mapsto> TokenRef (newToken PublishT)], cursor = 1\<rparr>,
              persist := \<lparr>opened = True,
                          contents = [(Outbound 1, PublishPacket 1 False ''a/b'' 1 [104, 105])]\<rparr>,
              obound := [(PublishPacket 1 False ''a/b'' 1 [104, 105],
                          Some ((newToken PublishT)\<lparr>messageID := 1\<rparr>))]\<rparr>,
           (newToken PublishT)\<lparr>messageID := 1\<rparr>)
   \<and> err ((newToken PublishT)\<lparr>messageID := 1\<rparr>) = None
   \<and> Publish (Some 0) connected_client ''a/b'' 1 False (StringPayload ''hi'')
        = Publish (Some 0) connected_client ''a/b'' 1 False (BytesPayload [104, 105])
   \<and> IsConnected lost_client
   \<and> \<not> (connectionStatus lost_client = reconnecting \<and> (2::byte) = 0)
   \<and> payload_bytes (BufferPayload [104, 105]) = Some [104, 105]
   \<and> Publish None lost_client ''a/b'' 2 True (BufferPayload [104, 105])
        = (lost_client
             \<lparr>msgIds := \<lparr>index = [1 \<mapsto> TokenRef (newToken PublishT)], cursor = 1\<rparr>,
              persist := \<lparr>opened = True,
                          contents = [(Outbound 1, PublishPacket 2 True ''a/b'' 1 [104, 105])]\<rparr>\<rparr>,
           (newToken PublishT)\<lparr>messageID := 1\<rparr>)"
proof -
  have a: "IsConnected connected_client"
    and b: "\<not> (connectionStatus connected_client = reconnecting \<and> (1::byte) = 0)"
    by (simp_all add: connected_client_publishing)
  have a': "IsConnected lost_client"
    and b': "\<not> (connectionStatus lost_client = reconnecting \<and> (2::byte) = 0)"
    by (simp_all add: lost_client_publishing)
  have p: "payload_bytes (StringPayload ''hi'') = Some [104, 105]"
    "payload_bytes (BufferPayload [104, 105]) = Some [104, 105]"
    by (simp_all add: payload_bytes_def)
  have s: "persistOutbound \<lparr>opened = True, contents = []\<rparr> (PublishPacket 1 False ''a/b'' 1 [104, 105])
      = \<lparr>opened = True, contents = [(Outbound 1, PublishPacket 1 False ''a/b'' 1 [104, 105])]\<rparr>"
    "persistOutbound \<lparr>opened = True, contents = []\<rparr> (PublishPacket 2 True ''a/b'' 1 [104, 105])
      = \<lparr>opened = True, contents = [(Outbound 1, PublishPacket 2 True ''a/b'' 1 [104, 105])]\<rparr>"
    by (simp_all add: persistOutbound_def store_Put_def)
  have e: "err ((newToken PublishT)\<lparr>messageID := 1\<rparr>) = None" by (simp add: newToken_def)
  have n: "connected \<noteq> connecting" "connected \<noteq> reconnecting"
    by (simp_all add: connected_def connecting_def reconnecting_def)
  from Publish_payload_types [OF a b, of "Some 0" "''a/b''" False "''hi''" "[104, 105]"
      "StringPayload ''hi''" "[104, 105]"] p
  have 1: "Publish_run (Some 0) connected_client ''a/b'' 1 False OtherPayload
        = (connected_client, setError (newToken PublishT) (Errorf ''unknown payload type''),
           Some (PublishPacket 1 False ''a/b'' 0 []))
   \<and> Publish (Some 0) connected_client ''a/b'' 1 False (StringPayload ''hi'')
        = (connected_client
             \<lparr>msgIds := \<lparr>index = [1 \<mapsto> TokenRef (newToken PublishT)], cursor = 1\<rparr>,
              persist := \<lparr>opened = True,
                          contents = [(Outbound 1, PublishPacket 1 False ''a/b'' 1 [104, 105])]\<rparr>,
              obound := [(PublishPacket 1 False ''a/b'' 1 [104, 105],
                          Some ((newToken PublishT)\<lparr>messageID := 1\<rparr>))]\<rparr>,
           (newToken PublishT)\<lparr>messageID := 1\<rparr>)
   \<and> Publish (Some 0) connected_client ''a/b'' 1 False (StringPayload ''hi'')
        = Publish (Some 0) connected_client ''a/b'' 1 False (BytesPayload [104, 105])"
    by (auto simp add: Let_def connected_client_publishing s n)
  from Publish_payload_types [OF a' b', of None "''a/b''" True "''hi''" "[104, 105]"
      "BufferPayload [104, 105]" "[104, 105]"] p
  have 2: "Publish None lost_client ''a/b'' 2 True (BufferPayload [104, 105])
        = (lost_client
             \<lparr>msgIds := \<lparr>index = [1 \<mapsto> TokenRef (newToken PublishT)], cursor = 1\<rparr>,
              persist := \<lparr>opened = True,
                          contents = [(Outbound 1, PublishPacket 2 True ''a/b'' 1 [104, 105])]\<rparr>\<rparr>,
           (newToken PublishT)\<lparr>messageID := 1\<rparr>)"
    by (auto simp add: Let_def lost_client_publishing s)
  from 1 2 a b a' b' p e show ?thesis by blast
qed

text \<open>
  The claim as it stands says that a payload of another type completes the token with
  the error without the packet being constructed. It is constructed: the call on the
  connected client with such a payload returns the error and leaves behind the packet
  it has built, with the QoS, the topic and the retain flag of the call, and the call
  returns without a packet only when one of the two guards stops it.
\<close>

theorem Publish_constructs_packet_counterexample:
  "IsConnected connected_client
   \<and> \<not> (connectionStatus connected_client = reconnecting \<and> (1::byte) = 0)
   \<and> fst (snd (Publish_run (Some 0) connected_client ''a/b'' 1 True OtherPayload))
       = setError (newToken PublishT) (Errorf ''unknown payload type'')
   \<and> snd (snd (Publish_run (Some 0) connected_client ''a/b'' 1 True OtherPayload))
       = Some (PublishPacket 1 True ''a/b'' 0 [])
   \<and> snd (snd (Publish_run (Some 0) connected_client ''a/b'' 1 True OtherPayload)) \<noteq> None
   \<and> snd (snd (Publish_run (Some 0) (NewClient example_options) ''a/b'' 1 True OtherPayload))
       = None"
  by (simp add: Publish_run_def example_defs)

subsection \<open>Enqueue under the write timeout\<close>









subsection \<open>Unsubscribe and the routes\<close>

lemma fold_deleteRoute:
  "routes (fold deleteRoute ts r) = (\<lambda>t. if t \<in> set ts then None else routes r t)"
  by (induction ts arbitrary: r) (auto simp: deleteRoute_def)

lemma Unsubscribe_routes:
  "msgRouter (fst (Unsubscribe ready c topics)) = msgRouter c
   \<or> (fst (select_send ready (waitTimeout c)) = Sent
      \<and> oboundP (fst (Unsubscribe ready c topics))
          = oboundP c @ [(UnsubscribePacket topics (messageID (snd (Unsubscribe ready c topics))),
                          Some (snd (Unsubscribe ready c topics)))]
      \<and> msgRouter (fst (Unsubscribe ready c topics)) = fold deleteRoute topics (msgRouter c))"
  by (auto simp add: Unsubscribe_def Let_def setError_def flowComplete_def connectionStatus_def
      split: select_result.splits)

lemma Unsubscribe_not_sent:
  assumes "fst (select_send ready (waitTimeout c)) = TimedOut \<or> status c = connecting
    \<or> status c = reconnecting"
  shows "msgRouter (fst (Unsubscribe ready c topics)) = msgRouter c
     \<and> oboundP (fst (Unsubscribe ready c topics)) = oboundP c"
  using assms
  by (auto simp add: Unsubscribe_def Let_def setError_def flowComplete_def connectionStatus_def
      split: select_result.splits)

lemma Unsubscribe_sent:
  assumes "status c = connected" "fst (select_send ready (waitTimeout c)) = Sent"
    "err (snd (Unsubscribe ready c topics)) \<noteq> Some (Errorf ''no message IDs available'')"
  shows "msgRouter (fst (Unsubscribe ready c topics)) = fold deleteRoute topics (msgRouter c)
     \<and> oboundP (fst (Unsubscribe ready c topics))
          = oboundP c @ [(UnsubscribePacket topics (messageID (snd (Unsubscribe ready c topics))),
                          Some (snd (Unsubscribe ready c topics)))]
     \<and> err (snd (Unsubscribe ready c topics)) = None"
  using assms
  by (auto simp add: Unsubscribe_def Let_def IsConnected_def IsConnectionOpen_def connectionStatus_def
       connected_def connecting_def reconnecting_def setError_def flowComplete_def newToken_def)

text \<open>
  Claim C6. \<open>Unsubscribe\<close> changes the route table only on the path on which the
  UNSUBSCRIBE packet has been sent on the priority channel: either the table is as it
  was, or the \<open>select\<close> took the send case, the packet is the last one on the channel
  and the table is the old one with the topics deleted. When the timeout expires, or
  when the status is \<open>connecting\<close> or \<open>reconnecting\<close> and the packet is only stored,
  the table and the channel are as they were. When the client is connected, an id is
  there and the send is taken, the routes of all the topics are gone.
\<close>

theorem Unsubscribe_removes_routes_after_enqueue:
  assumes "Unsubscribe ready c topics = (c', t)"
  shows "(msgRouter c' = msgRouter c
          \<or> (fst (select_send ready (waitTimeout c)) = Sent
             \<and> oboundP c' = oboundP c @ [(UnsubscribePacket topics (messageID t), Some t)]
             \<and> msgRouter c' = fold deleteRoute topics (msgRouter c)))
    \<and> (fst (select_send ready (waitTimeout c)) = TimedOut \<or> status c = connecting
          \<or> status c = reconnecting \<longrightarrow>
        msgRouter c' = msgRouter c \<and> oboundP c' = oboundP c)
    \<and> (status c = connected \<and> fst (select_send ready (waitTimeout c)) = Sent
          \<and> err t \<noteq> Some (Errorf ''no message IDs available'') \<longrightarrow>
        oboundP c' = oboundP c @ [(UnsubscribePacket topics (messageID t), Some t)]
        \<and> routes (msgRouter c') = (\<lambda>tp. if tp \<in> set topics then None else routes (msgRouter c) tp))"
  using assms Unsubscribe_routes [of ready c topics] Unsubscribe_not_sent [of ready c topics]
    Unsubscribe_sent [of c ready topics]
  by (auto simp: fold_deleteRoute)

theorem Unsubscribe_removes_routes_after_enqueue_witness:
  "routes (msgRouter routed_client) ''a/b'' = Some 7
   \<and> status routed_client = connected
   \<and> fst (select_send (Some 0) (waitTimeout routed_client)) = Sent
   \<and> oboundP (fst (Unsubscribe (Some 0) routed_client [''a/b'']))
        = [(UnsubscribePacket [''a/b''] 1, Some (snd (Unsubscribe (Some 0) routed_client [''a/b''])))]
   \<and> routes (msgRouter (fst (Unsubscribe (Some 0) routed_client [''a/b'']))) ''a/b'' = None
   \<and> fst (select_send None (waitTimeout routed_client)) = TimedOut
   \<and> oboundP (fst (Unsubscribe None routed_client [''a/b''])) = []
   \<and> routes (msgRouter (fst (Unsubscribe None routed_client [''a/b'']))) ''a/b'' = Some 7"
proof -
  let ?S = "Unsubscribe (Some 0) routed_client [''a/b'']"
  let ?T = "Unsubscribe None routed_client [''a/b'']"
  have r: "routes (msgRouter routed_client) ''a/b'' = Some 7" "oboundP routed_client = []"
    "status routed_client = connected"
    by (simp_all add: routed_client_def AddRoute_def addRoute_def example_defs)
  have w: "waitTimeout routed_client = Second * 30"
    by (simp add: routed_client_def AddRoute_def waitTimeout_def example_defs)
  have s: "fst (select_send (Some 0) (waitTimeout routed_client)) = Sent"
    "fst (select_send None (waitTimeout routed_client)) = TimedOut"
    by (simp_all add: w select_send_def Second_def)
  have m: "messageID (snd ?S) = 1 \<and> err (snd ?S) \<noteq> Some (Errorf ''no message IDs available'')"
    by (simp add: routed_client_def AddRoute_def example_defs Unsubscribe_def select_send_def
        waitTimeout_def Second_def)
  from Unsubscribe_removes_routes_after_enqueue [of "Some 0" routed_client "[''a/b'']" "fst ?S" "snd ?S"]
    Unsubscribe_removes_routes_after_enqueue [of None routed_client "[''a/b'']" "fst ?T" "snd ?T"]
    r s m
  show ?thesis by simp
qed

subsection \<open>Routes added by SubscribeMultiple\<close>

lemma fold_addRoute:
  "routes (fold (\<lambda>topic. addRoute topic h) ts r)
     = (\<lambda>t. if t \<in> set ts then Some h else routes r t)"
  by (induction ts arbitrary: r) (auto simp: addRoute_def)

lemma SubscribeMultiple_msgRouter:
  "msgRouter (fst (SubscribeMultiple validateSubscribeMap ready c filters (Some h))) =
     (if \<not> IsConnected c \<or> (\<not> IsConnectionOpen c \<and> \<not> ResumeSubs (options c))
         \<or> (\<not> IsConnectionOpen c \<and> CleanSession (options c) \<and> connectionStatus c = reconnecting)
        then msgRouter c
      else case validateSubscribeMap filters of
             Inl e \<Rightarrow> msgRouter c
           | Inr tq \<Rightarrow> fold (\<lambda>topic. addRoute topic h) (map fst filters) (msgRouter c))"
  by (simp add: SubscribeMultiple_def Let_def connectionStatus_def
      split: sum.splits select_result.splits)

text \<open>
  Claim C9. \<open>SubscribeMultiple\<close> with a callback that is not nil either leaves the
  route table as it was (on the paths that return before the routes are added), or
  maps every topic of the filters, exactly as it was supplied, to the callback and is
  the old table everywhere else. The second is what happens when the call passes its
  checks on the connection state and the map of filters is valid. No topic is
  rewritten before it is added, whatever prefix it has.
\<close>

theorem SubscribeMultiple_routes_as_supplied:
  assumes "SubscribeMultiple validateSubscribeMap ready c filters (Some h) = (c', t)"
  shows "(routes (msgRouter c') = routes (msgRouter c)
          \<or> routes (msgRouter c')
               = (\<lambda>tp. if tp \<in> fst ` set filters then Some h else routes (msgRouter c) tp))
    \<and> (IsConnected c
        \<and> (IsConnectionOpen c
            \<or> (ResumeSubs (options c)
                \<and> \<not> (CleanSession (options c) \<and> connectionStatus c = reconnecting)))
        \<and> validateSubscribeMap filters = Inr tq \<longrightarrow>
        routes (msgRouter c')
          = (\<lambda>tp. if tp \<in> fst ` set filters then Some h else routes (msgRouter c) tp)
        \<and> dom (routes (msgRouter c')) = dom (routes (msgRouter c)) \<union> fst ` set filters)"
proof -
  have r: "msgRouter c' =
     (if \<not> IsConnected c \<or> (\<not> IsConnectionOpen c \<and> \<not> ResumeSubs (options c))
         \<or> (\<not> IsConnectionOpen c \<and> CleanSession (options c) \<and> connectionStatus c = reconnecting)
        then msgRouter c
      else case validateSubscribeMap filters of
             Inl e \<Rightarrow> msgRouter c
           | Inr tq \<Rightarrow> fold (\<lambda>topic. addRoute topic h) (map fst filters) (msgRouter c))"
    using SubscribeMultiple_msgRouter [of validateSubscribeMap ready c filters h] assms
    by simp
  have tbl: "routes (fold (\<lambda>topic. addRoute topic h) (map fst filters) (msgRouter c))
       = (\<lambda>tp. if tp \<in> fst ` set filters then Some h else routes (msgRouter c) tp)"
    by (simp add: fold_addRoute)
  have d: "dom (\<lambda>tp. if tp \<in> fst ` set filters then Some h else routes (msgRouter c) tp)
      = dom (routes (msgRouter c)) \<union> fst ` set filters"
    by (auto simp: dom_def)
  show ?thesis
  proof (intro conjI impI)
    show "routes (msgRouter c') = routes (msgRouter c)
          \<or> routes (msgRouter c')
               = (\<lambda>tp. if tp \<in> fst ` set filters then Some h else routes (msgRouter c) tp)"
      unfolding r using tbl by (simp split: sum.splits)
  next
    assume h: "IsConnected c
        \<and> (IsConnectionOpen c
            \<or> (ResumeSubs (options c)
                \<and> \<not> (CleanSession (options c) \<and> connectionStatus c = reconnecting)))
        \<and> validateSubscribeMap filters = Inr tq"
    then have p: "msgRouter c' = fold (\<lambda>topic. addRoute topic h) (map fst filters) (msgRouter c)"
      unfolding r by auto
    with tbl
    show "routes (msgRouter c')
          = (\<lambda>tp. if tp \<in> fst ` set filters then Some h else routes (msgRouter c) tp)"
      by simp
    from p tbl d
    show "dom (routes (msgRouter c')) = dom (routes (msgRouter c)) \<union> fst ` set filters"
      by simp
  qed
qed

theorem SubscribeMultiple_routes_as_supplied_witness:
  "IsConnected connected_client \<and> IsConnectionOpen connected_client
   \<and> accept_map prefixed_filters = Inr (map fst prefixed_filters, map snd prefixed_filters)
   \<and> routes (msgRouter (fst (SubscribeMultiple accept_map None connected_client prefixed_filters (Some 7))))
        ''$share/g/a/b'' = Some 7
   \<and> routes (msgRouter (fst (SubscribeMultiple accept_map None connected_client prefixed_filters (Some 7))))
        ''$queue/c'' = Some 7
   \<and> routes (msgRouter (fst (SubscribeMultiple accept_map None connected_client prefixed_filters (Some 7))))
        ''a/b'' = None
   \<and> routes (msgRouter (fst (SubscribeMultiple accept_map None connected_client prefixed_filters (Some 7))))
        ''c'' = None
   \<and> routes (msgRouter (fst (Subscribe accept_topic None connected_client ''$share/g/a/b'' 1 (Some 7))))
        ''a/b'' = Some 7
   \<and> routes (msgRouter (fst (Subscribe accept_topic None connected_client ''$share/g/a/b'' 1 (Some 7))))
        ''$share/g/a/b'' = None"
proof -
  let ?M = "SubscribeMultiple accept_map None connected_client prefixed_filters (Some 7)"
  have a: "IsConnected connected_client" and b: "IsConnectionOpen connected_client"
    by (simp_all add: example_defs)
  have v: "accept_map prefixed_filters = Inr (map fst prefixed_filters, map snd prefixed_filters)"
    by (simp add: accept_map_def)
  have r: "routes (msgRouter connected_client) = Map.empty"
    by (simp add: example_defs)
  have s: "routes (msgRouter (fst (Subscribe accept_topic None connected_client ''$share/g/a/b'' 1 (Some 7))))
        ''a/b'' = Some 7
   \<and> routes (msgRouter (fst (Subscribe accept_topic None connected_client ''$share/g/a/b'' 1 (Some 7))))
        ''$share/g/a/b'' = None"
    by (simp add: example_defs Subscribe_def accept_topic_def select_send_def addRoute_def
        HasPrefix_def TrimPrefix_def)
  have m: "?M = (fst ?M, snd ?M)" by simp
  from SubscribeMultiple_routes_as_supplied [OF m,
      of "(map fst prefixed_filters, map snd prefixed_filters)"] a b v r s
  show ?thesis by (simp add: prefixed_filters_def)
qed

subsection \<open>The backoff of the reconnect worker\<close>













lemma reconnecting_examples:
  "Servers (options lost_client) = [''tcp://a:1883'', ''tcp://b:1883'']"
  "\<not> useCallback lost_client" "ProtocolVersion (options lost_client) = 4"
  "protocolVersionExplicit (options lost_client)" "status lost_client \<noteq> disconnected"
  "sint (MaxReconnectInterval (options lost_client)) = 600000000000"
  "Servers (options short_max_client) = [''tcp://a:1883'', ''tcp://b:1883'']"
  "\<not> useCallback short_max_client" "ProtocolVersion (options short_max_client) = 4"
  "protocolVersionExplicit (options short_max_client)" "status short_max_client \<noteq> disconnected"
  "MaxReconnectInterval (options short_max_client) = 500000000"
  "Servers (options huge_max_client) = [''tcp://a:1883'', ''tcp://b:1883'']"
  "\<not> useCallback huge_max_client" "ProtocolVersion (options huge_max_client) = 4"
  "protocolVersionExplicit (options huge_max_client)" "status huge_max_client \<noteq> disconnected"
  "MaxReconnectInterval (options huge_max_client) = 9223372036854775807"
  by (simp_all add: lost_client_def short_max_client_def huge_max_client_def connect_defs
      Second_def)



subsection \<open>The fallback to protocol level 3\<close>

text \<open>
  Once the protocol level is explicit or is no longer 4, the loop dials each broker at
  most once, in the order of the list, at the level it has.
\<close>

lemma ev_simps [simp]:
  "ev_broker (DialFailed b) = b" "ev_broker (Handshake b v rc) = b"
  "ev_level (DialFailed b) = None" "ev_level (Handshake b v rc) = Some v"
  "ev_rc (DialFailed b) = ErrNetworkError" "ev_rc (Handshake b v rc) = rc"
  by (simp_all add: ev_broker_def ev_level_def ev_rc_def)

lemma map_ev_broker_DialFailed [simp]: "map ev_broker (map DialFailed bs) = bs"
  by (induction bs) simp_all



lemma attemptConnection_log:
  "a_log (snd (attemptConnection w c n))
     = a_log (attempt_brokers w c (Servers (options c))
          \<lparr>a_conn = None, a_rc = 0, a_sessionPresent = False, a_err = None,
           a_protocolVersion = ProtocolVersion (options c), a_dials = n, a_log = []\<rparr>)"
  by (simp add: attemptConnection_def Let_def)


lemma connecting_client_facts:
  "Servers (options connecting_client) = [''tcp://a:1883'', ''tcp://b:1883'']"
  "\<not> useCallback connecting_client" "ProtocolVersion (options connecting_client) = 4"
  "\<not> protocolVersionExplicit (options connecting_client)"
  "status connecting_client = connecting" "InitialRC connecting_client = 0"
  by (simp_all add: connecting_client_def example_defs)

lemma refused_attempt_fallback:
  "a_log (snd (attemptConnection refusing_world connecting_client 0))
     = [Handshake ''tcp://a:1883'' 4 5, Handshake ''tcp://a:1883'' 3 5,
        Handshake ''tcp://b:1883'' 3 5]"
  by (simp add: attemptConnection_def Let_def connecting_client_facts refusing_world_def
      Detour_def Accepted_def ErrNetworkError_def)



subsection \<open>The return code kept for GetInitialRC\<close>

lemma attempt_brokers_rc:
  "a_log s \<noteq> [] \<longrightarrow> a_rc s = ev_rc (last (a_log s)) \<Longrightarrow>
   a_log (attempt_brokers w c bs s) \<noteq> []
     \<longrightarrow> a_rc (attempt_brokers w c bs s) = ev_rc (last (a_log (attempt_brokers w c bs s)))"
proof (induction w c bs s rule: attempt_brokers.induct)
  case (1 w c s)
  then show ?case by simp
next
  case (2 w c broker rest s)
  show ?case
  proof (cases "Detour w c (a_dials s) broker")
    case (Inl e)
    let ?s1 = "s\<lparr>a_conn := None, a_err := Some e, a_rc := ErrNetworkError,
               a_dials := Suc (a_dials s), a_log := a_log s @ [DialFailed broker]\<rparr>"
    have step: "attempt_brokers w c (broker # rest) s = attempt_brokers w c rest ?s1"
      by (subst attempt_brokers.simps(2)) (simp add: Inl del: attempt_brokers.simps)
    have "a_log ?s1 \<noteq> [] \<longrightarrow> a_rc ?s1 = ev_rc (last (a_log ?s1))" by simp
    from 2(1) [OF Inl this] show ?thesis unfolding step .
  next
    case (Inr cn)
    let ?r = "ConnectMQTT w cn (a_protocolVersion s)"
    let ?s1 = "s\<lparr>a_conn := Some cn, a_err := None, a_rc := fst ?r,
               a_sessionPresent := snd ?r, a_dials := Suc (a_dials s),
               a_log := a_log s @ [Handshake broker (a_protocolVersion s) (fst ?r)]\<rparr>"
    show ?thesis
    proof (cases "fst ?r = Accepted")
      case True
      have step: "attempt_brokers w c (broker # rest) s = ?s1"
        by (subst attempt_brokers.simps(2)) (simp add: Inr True del: attempt_brokers.simps)
      show ?thesis unfolding step by simp
    next
      case False
      show ?thesis
      proof (cases "\<not> protocolVersionExplicit (options c) \<and> a_protocolVersion s = 4")
        case True
        let ?s2 = "?s1\<lparr>a_protocolVersion := 3\<rparr>"
        have step: "attempt_brokers w c (broker # rest) s
            = attempt_brokers w c (broker # rest) ?s2"
          by (subst attempt_brokers.simps(2))
             (use Inr False True in \<open>simp del: attempt_brokers.simps\<close>)
        have "a_log ?s2 \<noteq> [] \<longrightarrow> a_rc ?s2 = ev_rc (last (a_log ?s2))" by simp
        from 2(2) [OF Inr False True this] show ?thesis unfolding step .
      next
        case nofb: False
        have step: "attempt_brokers w c (broker # rest) s = attempt_brokers w c rest ?s1"
          by (subst attempt_brokers.simps(2))
             (use Inr False nofb in \<open>auto simp del: attempt_brokers.simps\<close>)
        have "a_log ?s1 \<noteq> [] \<longrightarrow> a_rc ?s1 = ev_rc (last (a_log ?s1))" by simp
        from 2(3) [OF Inr False nofb this] show ?thesis unfolding step .
      qed
    qed
  qed
qed

lemma attemptConnection_a_rc:
  "a_rc (snd (attemptConnection w c n))
     = a_rc (attempt_brokers w c (Servers (options c))
          \<lparr>a_conn = None, a_rc = 0, a_sessionPresent = False, a_err = None,
           a_protocolVersion = ProtocolVersion (options c), a_dials = n, a_log = []\<rparr>)"
  by (simp add: attemptConnection_def Let_def)

lemma attemptConnection_rc:
  "a_log (snd (attemptConnection w c n)) \<noteq> []
   \<Longrightarrow> a_rc (snd (attemptConnection w c n)) = ev_rc (last (a_log (snd (attemptConnection w c n))))"
  using attempt_brokers_rc [of "\<lparr>a_conn = None, a_rc = 0, a_sessionPresent = False, a_err = None,
           a_protocolVersion = ProtocolVersion (options c), a_dials = n, a_log = []\<rparr>"
        w c "Servers (options c)"]
  by (simp add: attemptConnection_a_rc attemptConnection_log)

lemma attemptConnection_InitialRC:
  "InitialRC (fst (attemptConnection w c n)) = InitialRC c"
  by (simp add: attemptConnection_def Let_def)

lemma resume_key_InitialRC: "InitialRC (fst (resume_key sub k ci)) = InitialRC (fst ci)"
  by (simp add: resume_key_def Let_def split: option.splits ControlPacket.splits)

lemma fold_resume_key_InitialRC:
  "InitialRC (fst (fold (resume_key sub) ks ci)) = InitialRC (fst ci)"
  by (induction ks arbitrary: ci) (simp_all add: resume_key_InitialRC)

lemma resume_InitialRC: "InitialRC (fst (resume sub c)) = InitialRC c"
  by (simp add: resume_def fold_resume_key_InitialRC)

lemma startCommsWorkers_InitialRC: "InitialRC (fst (startCommsWorkers c cn)) = InitialRC c"
  by (simp add: startCommsWorkers_def setConnected_def)

lemma reconnect_loop_InitialRC:
  "InitialRC (r_client (reconnect_loop fuel w c n k sleep cn slept)) = InitialRC c"
proof (induction fuel arbitrary: c n k sleep cn slept)
  case 0
  show ?case by simp
next
  case (Suc fuel)
  show ?case
    by (simp add: Let_def Suc.IH attemptConnection_InitialRC split: option.splits)
qed

lemma reconnect_InitialRC: "InitialRC (r_client (reconnect fuel w c)) = InitialRC c"
  by (simp add: reconnect_def Let_def reconnect_loop_InitialRC resume_InitialRC
      startCommsWorkers_InitialRC)

lemma connack_codes_append [simp]:
  "connack_codes (xs @ ys) = connack_codes xs @ connack_codes ys"
  by (simp add: connack_codes_def)

lemma connack_codes_last:
  assumes "log \<noteq> []" "last log = Handshake b v rc" "rc \<noteq> ErrNetworkError"
  shows "last (connack_codes log) = rc"
proof -
  from assms have "log = butlast log @ [Handshake b v rc]"
    by (metis append_butlast_last_id)
  moreover have "connack_codes [Handshake b v rc] = [rc]"
    using assms(3) by (simp add: connack_codes_def)
  ultimately have "connack_codes log = connack_codes (butlast log) @ [rc]"
    by (metis connack_codes_append)
  then show ?thesis by simp
qed

lemma connect_attempt_fields:
  "options (fst (connect_attempt w c n)) = options (fst (attemptConnection w c n))"
  "InitialRC (fst (connect_attempt w c n)) = a_rc (snd (attemptConnection w c n))"
  "snd (connect_attempt w c n) = snd (attemptConnection w c n)"
  by (simp_all add: connect_attempt_def Let_def)

lemma attemptConnection_err_None:
  "a_err (snd (attemptConnection w c n)) = None \<Longrightarrow>
   a_rc (snd (attemptConnection w c n)) = Accepted
   \<or> (a_rc (snd (attemptConnection w c n)) \<noteq> ErrNetworkError
      \<and> connErrors w (a_rc (snd (attemptConnection w c n))) = None)"
  by (auto simp: attemptConnection_def Let_def split: if_splits)

lemma retryconn_InitialRC:
  "retryconn fuel w c t n k = Some (c', t') \<Longrightarrow> err t = None \<Longrightarrow>
   (err t' \<noteq> None \<longrightarrow> InitialRC c' = returnCode t')
   \<and> (err t' = None \<longrightarrow>
        InitialRC c' = Accepted
        \<or> (InitialRC c' \<noteq> ErrNetworkError \<and> connErrors w (InitialRC c') = None))"
proof (induction fuel arbitrary: c t n k)
  case 0
  then show ?case by simp
next
  case (Suc fuel)
  define c1 where "c1 = fst (connect_attempt w c n)"
  define a where "a = snd (connect_attempt w c n)"
  define t1 where "t1 = t\<lparr>sessionPresent := a_sessionPresent a\<rparr>"
  define c2 where "c2 = (if ConnectRetry (options c1) \<and> disconnect_called w k
                         then c1\<lparr>status := disconnected\<rparr> else c1)"
  have rc: "InitialRC c1 = a_rc a" and rc2: "InitialRC c2 = a_rc a"
    by (simp_all add: c1_def c2_def a_def connect_attempt_fields)
  have t1: "err t1 = None" using Suc.prems(2) by (simp add: t1_def)
  have unfold: "retryconn (Suc fuel) w c t n k =
     (case a_err a of
        Some e \<Rightarrow>
          if ConnectRetry (options c1) \<and> status c2 = connecting
            then retryconn fuel w c2 t1 (a_dials a) (Suc k)
          else Some ((setConnected disconnected c2)\<lparr>persist := store_Close (persist c2)\<rparr>,
                     setError (t1\<lparr>returnCode := a_rc a\<rparr>) e)
      | None \<Rightarrow>
          Some (if snd (startCommsWorkers c1 (a_conn a)) then
                  (if \<not> CleanSession (options (fst (startCommsWorkers c1 (a_conn a))))
                     then fst (resume (ResumeSubs (options (fst (startCommsWorkers c1 (a_conn a)))))
                                 (fst (startCommsWorkers c1 (a_conn a))))
                   else (fst (startCommsWorkers c1 (a_conn a)))
                          \<lparr>persist := store_Reset (persist (fst (startCommsWorkers c1 (a_conn a))))\<rparr>)
                else fst (startCommsWorkers c1 (a_conn a)),
                flowComplete t1))"
    by (cases "a_err (snd (connect_attempt w c n))")
       (simp_all add: Let_def c1_def a_def t1_def c2_def)
  show ?case
  proof (cases "a_err a")
    case None
    then have acc: "a_rc a = Accepted
        \<or> (a_rc a \<noteq> ErrNetworkError \<and> connErrors w (a_rc a) = None)"
      using attemptConnection_err_None [of w c n] by (simp add: a_def connect_attempt_fields)
    from Suc.prems(1) [unfolded unfold] None
    have "InitialRC c' = InitialRC c1" and t': "t' = flowComplete t1"
      by (auto simp add: resume_InitialRC startCommsWorkers_InitialRC split: if_splits)
    with rc acc t1 show ?thesis by (simp add: flowComplete_def)
  next
    case (Some e)
    show ?thesis
    proof (cases "ConnectRetry (options c1) \<and> status c2 = connecting")
      case True
      with Suc.prems(1) [unfolded unfold] Some
      have "retryconn fuel w c2 t1 (a_dials a) (Suc k) = Some (c', t')"
        by simp
      from Suc.IH [OF this t1] show ?thesis .
    next
      case False
      with Suc.prems(1) [unfolded unfold] Some
      have "c' = (setConnected disconnected c2)\<lparr>persist := store_Close (persist c2)\<rparr>"
        "t' = setError (t1\<lparr>returnCode := a_rc a\<rparr>) e"
        by auto
      with rc2 show ?thesis
        by (simp add: setConnected_def setError_def flowComplete_def)
    qed
  qed
qed

lemma Connect_InitialRC:
  assumes "Connect fuel w c = Some (c', t')" "snd (snd (Connect_call c))"
    "Servers (options c) \<noteq> []"
  shows "(err t' \<noteq> None \<longrightarrow> InitialRC c' = returnCode t')
   \<and> (err t' = None \<longrightarrow>
        InitialRC c' = Accepted
        \<or> (InitialRC c' \<noteq> ErrNetworkError \<and> connErrors w (InitialRC c') = None))"
proof -
  obtain c1 t launched where cc: "Connect_call c = (c1, t, launched)"
    by (metis prod_cases3)
  with assms(2) have l: "launched" by simp
  have t: "t = newToken ConnectT" and o: "options c1 = options c"
    using cc l
    by (auto simp: Connect_call_def Let_def setConnected_def reserveStoredPublishIDs_fields
        split: if_splits)
  from assms(1,3) cc l o have "retryconn fuel w c1 t 0 0 = Some (c', t')"
    by (simp add: Connect_def Connect_worker_def)
  from retryconn_InitialRC [OF this] t show ?thesis by (simp add: newToken_def)
qed

text \<open>
  Claim C3, as amended. After a connection attempt made by \<open>Connect\<close>, \<open>GetInitialRC\<close>
  returns the return code that attempt ended with. That is the return code of the most
  recently observed CONNACK when the last dial of the attempt reached the handshake and
  a CONNACK was read; it is the network-error sentinel when the last dial failed or
  the last handshake failed on the transport, whatever CONNACK the attempt has
  observed before. When a \<open>Connect\<close> with a non-empty list of servers has run to its
  end with an error, \<open>GetInitialRC\<close> returns the return code of the token; when it has
  run to its end without an error, \<open>GetInitialRC\<close> returns \<open>Accepted\<close> or a return
  code, other than the sentinel, for which the table \<open>packets.ConnErrors\<close> has no
  error. The reconnect worker never changes what \<open>GetInitialRC\<close> returns, whatever its
  attempts observe.
\<close>

theorem GetInitialRC_after_attempts:
  "GetInitialRC (fst (connect_attempt w c n)) = a_rc (snd (connect_attempt w c n))
   \<and> (a_log (snd (connect_attempt w c n)) \<noteq> []
        \<and> last (a_log (snd (connect_attempt w c n))) = Handshake b v rc
        \<and> rc \<noteq> ErrNetworkError \<longrightarrow>
        GetInitialRC (fst (connect_attempt w c n)) = rc
        \<and> last (connack_codes (a_log (snd (connect_attempt w c n)))) = rc)
   \<and> (a_log (snd (connect_attempt w c n)) \<noteq> []
        \<and> (last (a_log (snd (connect_attempt w c n))) = DialFailed b'
           \<or> last (a_log (snd (connect_attempt w c n))) = Handshake b' v' ErrNetworkError) \<longrightarrow>
        GetInitialRC (fst (connect_attempt w c n)) = ErrNetworkError)
   \<and> (Connect fuel w0 c0 = Some (c', t') \<and> snd (snd (Connect_call c0))
        \<and> Servers (options c0) \<noteq> [] \<longrightarrow>
        (err t' \<noteq> None \<longrightarrow> GetInitialRC c' = returnCode t')
        \<and> (err t' = None \<longrightarrow>
             GetInitialRC c' = Accepted
             \<or> (GetInitialRC c' \<noteq> ErrNetworkError \<and> connErrors w0 (GetInitialRC c') = None)))
   \<and> GetInitialRC (r_client (reconnect fuel' wr cr)) = GetInitialRC cr"
proof -
  let ?a = "snd (connect_attempt w c n)"
  have 1: "GetInitialRC (fst (connect_attempt w c n)) = a_rc ?a"
    by (simp add: GetInitialRC_def connect_attempt_fields)
  have l: "a_log ?a \<noteq> [] \<Longrightarrow> a_rc ?a = ev_rc (last (a_log ?a))"
    using attemptConnection_rc [of w c n] by (simp add: connect_attempt_fields)
  have 2: "a_log ?a \<noteq> [] \<and> last (a_log ?a) = Handshake b v rc \<and> rc \<noteq> ErrNetworkError \<longrightarrow>
        GetInitialRC (fst (connect_attempt w c n)) = rc
        \<and> last (connack_codes (a_log ?a)) = rc"
    using l connack_codes_last [of "a_log ?a" b v rc] by (simp add: 1)
  have 3: "a_log ?a \<noteq> []
        \<and> (last (a_log ?a) = DialFailed b' \<or> last (a_log ?a) = Handshake b' v' ErrNetworkError) \<longrightarrow>
        GetInitialRC (fst (connect_attempt w c n)) = ErrNetworkError"
    using l by (auto simp add: 1)
  have 4: "Connect fuel w0 c0 = Some (c', t') \<and> snd (snd (Connect_call c0))
        \<and> Servers (options c0) \<noteq> [] \<longrightarrow>
        (err t' \<noteq> None \<longrightarrow> GetInitialRC c' = returnCode t')
        \<and> (err t' = None \<longrightarrow>
             GetInitialRC c' = Accepted
             \<or> (GetInitialRC c' \<noteq> ErrNetworkError \<and> connErrors w0 (GetInitialRC c') = None))"
    using Connect_InitialRC [of fuel w0 c0 c' t'] unfolding GetInitialRC_def by blast
  have 5: "GetInitialRC (r_client (reconnect fuel' wr cr)) = GetInitialRC cr"
    by (simp add: GetInitialRC_def reconnect_InitialRC)
  from 1 2 3 4 5 show ?thesis by blast
qed

lemma half_dead_attempt:
  "snd (attemptConnection half_dead_world connecting_client 0)
     = \<lparr>a_conn = None, a_rc = ErrNetworkError, a_sessionPresent = False,
        a_err = Some (NetworkErrorf ErrNetworkError (Some (DialError ''connection refused''))),
        a_protocolVersion = 3, a_dials = 3,
        a_log = [Handshake ''tcp://a:1883'' 4 5, Handshake ''tcp://a:1883'' 3 5,
                 DialFailed ''tcp://b:1883'']\<rparr>"
  by (simp add: attemptConnection_def Let_def connecting_client_facts half_dead_world_def
      Detour_def Accepted_def ErrNetworkError_def)

lemma transport_dead_attempt:
  "snd (attemptConnection transport_dead_world connecting_client 0)
     = \<lparr>a_conn = Some 2, a_rc = ErrNetworkError, a_sessionPresent = False,
        a_err = Some (NetworkErrorf ErrNetworkError None),
        a_protocolVersion = 3, a_dials = 3,
        a_log = [Handshake ''tcp://a:1883'' 4 5, Handshake ''tcp://a:1883'' 3 5,
                 Handshake ''tcp://b:1883'' 3 ErrNetworkError]\<rparr>"
  by (simp add: attemptConnection_def Let_def connecting_client_facts transport_dead_world_def
      Detour_def Accepted_def ErrNetworkError_def)

lemma disconnecting_attempt:
  "attemptConnection disconnecting_world lost_client 0
     = (lost_client,
        \<lparr>a_conn = Some 1, a_rc = 5, a_sessionPresent = False, a_err = Some (ConnErrors 5),
         a_protocolVersion = 4, a_dials = 2,
         a_log = [Handshake ''tcp://a:1883'' 4 5, Handshake ''tcp://b:1883'' 4 5]\<rparr>)"
  by (simp add: attemptConnection_def Let_def reconnecting_examples disconnecting_world_def
      Detour_def Accepted_def ErrNetworkError_def)

lemma disconnecting_reconnect:
  "r_finished (reconnect 1 disconnecting_world lost_client)
   \<and> status (r_client (reconnect 1 disconnecting_world lost_client)) = disconnected
   \<and> r_slept (reconnect 1 disconnecting_world lost_client) = [Second]"
proof -
  have d: "disconnect_called disconnecting_world 0" by (simp add: disconnecting_world_def)
  have "reconnect_loop (Suc 0) disconnecting_world lost_client 0 0 (1 * Second) None []
      = \<lparr>r_finished = True, r_client = lost_client\<lparr>status := disconnected\<rparr>,
         r_conn = Some 1, r_slept = [Second]\<rparr>"
    using d by (simp add: Let_def disconnecting_attempt)
  then show ?thesis by (simp add: reconnect_def Let_def connectionStatus_def)
qed

lemma refused_Connect:
  "map_option (\<lambda>ct. (status (fst ct), GetInitialRC (fst ct), returnCode (snd ct), err (snd ct)))
     (Connect 1 refusing_world (NewClient example_options))
     = Some (disconnected, 5, 5, Some (ConnErrors 5))"
  by (simp add: Connect_def Connect_worker_def connect_attempt_def attemptConnection_def
      example_defs refusing_world_def Detour_def Accepted_def ErrNetworkError_def
      store_Close_def GetInitialRC_def)

lemma unlisted_Connect:
  "map_option (\<lambda>ct. (status (fst ct), GetInitialRC (fst ct), returnCode (snd ct), err (snd ct)))
     (Connect 1 unlisted_world (NewClient example_options))
     = Some (connected, 6, 0, None)"
  by (simp add: Connect_def Connect_worker_def connect_attempt_def attemptConnection_def
      example_defs unlisted_world_def Detour_def Accepted_def ErrNetworkError_def
      startCommsWorkers_def resume_def GetInitialRC_def)

lemma launched_examples:
  "snd (snd (Connect_call (NewClient example_options)))"
  "Servers (options (NewClient example_options)) \<noteq> []"
  by (simp_all add: example_defs)

theorem GetInitialRC_after_attempts_witness:
  "a_log (snd (connect_attempt refusing_world connecting_client 0)) \<noteq> []
   \<and> last (a_log (snd (connect_attempt refusing_world connecting_client 0)))
       = Handshake ''tcp://b:1883'' 3 5
   \<and> (5 :: byte) \<noteq> ErrNetworkError
   \<and> GetInitialRC (fst (connect_attempt refusing_world connecting_client 0)) = 5
   \<and> last (connack_codes (a_log (snd (connect_attempt refusing_world connecting_client 0)))) = 5
   \<and> last (a_log (snd (connect_attempt half_dead_world connecting_client 0)))
       = DialFailed ''tcp://b:1883''
   \<and> GetInitialRC (fst (connect_attempt half_dead_world connecting_client 0)) = ErrNetworkError
   \<and> last (a_log (snd (connect_attempt transport_dead_world connecting_client 0)))
       = Handshake ''tcp://b:1883'' 3 ErrNetworkError
   \<and> GetInitialRC (fst (connect_attempt transport_dead_world connecting_client 0))
       = ErrNetworkError
   \<and> snd (snd (Connect_call (NewClient example_options)))
   \<and> Servers (options (NewClient example_options)) \<noteq> []
   \<and> map_option (\<lambda>ct. (status (fst ct), GetInitialRC (fst ct), returnCode (snd ct), err (snd ct)))
        (Connect 1 refusing_world (NewClient example_options))
       = Some (disconnected, 5, 5, Some (ConnErrors 5))
   \<and> map_option (\<lambda>ct. (status (fst ct), GetInitialRC (fst ct), returnCode (snd ct), err (snd ct)))
        (Connect 1 unlisted_world (NewClient example_options))
       = Some (connected, 6, 0, None)
   \<and> connErrors unlisted_world 6 = None
   \<and> GetInitialRC lost_client = 0
   \<and> GetInitialRC (r_client (reconnect 1 disconnecting_world lost_client)) = 0"
proof -
  have a: "a_log (snd (connect_attempt refusing_world connecting_client 0)) \<noteq> []
     \<and> last (a_log (snd (connect_attempt refusing_world connecting_client 0)))
       = Handshake ''tcp://b:1883'' 3 5"
    by (simp add: connect_attempt_fields refused_attempt_fallback)
  have n: "(5 :: byte) \<noteq> ErrNetworkError" by (simp add: ErrNetworkError_def)
  have b: "a_log (snd (connect_attempt half_dead_world connecting_client 0)) \<noteq> []
     \<and> last (a_log (snd (connect_attempt half_dead_world connecting_client 0)))
       = DialFailed ''tcp://b:1883''"
    by (simp add: connect_attempt_fields half_dead_attempt)
  have d: "a_log (snd (connect_attempt transport_dead_world connecting_client 0)) \<noteq> []
     \<and> last (a_log (snd (connect_attempt transport_dead_world connecting_client 0)))
       = Handshake ''tcp://b:1883'' 3 ErrNetworkError"
    by (simp add: connect_attempt_fields transport_dead_attempt)
  have c: "GetInitialRC lost_client = 0"
    by (simp add: GetInitialRC_def lost_client_def connect_defs)
  have u: "connErrors unlisted_world 6 = None" by (simp add: unlisted_world_def)
  obtain c5 t5 where r5: "Connect 1 refusing_world (NewClient example_options) = Some (c5, t5)"
    using refused_Connect by (cases "Connect 1 refusing_world (NewClient example_options)") auto
  have e5: "err t5 \<noteq> None" using refused_Connect r5 by simp
  obtain c6 t6 where r6: "Connect 1 unlisted_world (NewClient example_options) = Some (c6, t6)"
    using unlisted_Connect by (cases "Connect 1 unlisted_world (NewClient example_options)") auto
  have e6: "err t6 = None" using unlisted_Connect r6 by simp
  from GetInitialRC_after_attempts [of refusing_world connecting_client 0
        "''tcp://b:1883''" 3 5 "''tcp://b:1883''" 3 1 refusing_world
        "NewClient example_options" c5 t5 1 disconnecting_world lost_client]
    a n r5 e5 launched_examples
  have 1: "GetInitialRC (fst (connect_attempt refusing_world connecting_client 0)) = 5
     \<and> last (connack_codes (a_log (snd (connect_attempt refusing_world connecting_client 0)))) = 5
     \<and> GetInitialRC c5 = returnCode t5
     \<and> GetInitialRC (r_client (reconnect 1 disconnecting_world lost_client))
         = GetInitialRC lost_client"
    by auto
  from GetInitialRC_after_attempts [of half_dead_world connecting_client 0
        "''tcp://b:1883''" 3 5 "''tcp://b:1883''" 3 1 unlisted_world
        "NewClient example_options" c6 t6 1 disconnecting_world lost_client]
    b r6 e6 launched_examples
  have 2: "GetInitialRC (fst (connect_attempt half_dead_world connecting_client 0))
       = ErrNetworkError
     \<and> (GetInitialRC c6 = Accepted
        \<or> (GetInitialRC c6 \<noteq> ErrNetworkError \<and> connErrors unlisted_world (GetInitialRC c6) = None))"
    by auto
  from GetInitialRC_after_attempts [of transport_dead_world connecting_client 0
        "''tcp://b:1883''" 3 5 "''tcp://b:1883''" 3 1 unlisted_world
        "NewClient example_options" c6 t6 1 disconnecting_world lost_client]
    d
  have 3: "GetInitialRC (fst (connect_attempt transport_dead_world connecting_client 0))
       = ErrNetworkError"
    by auto
  from 1 2 3 a n b d c u launched_examples refused_Connect unlisted_Connect
  show ?thesis by simp
qed

theorem GetInitialRC_after_attempts_counterexample:
  "GetInitialRC lost_client = 0
   \<and> r_finished (reconnect 1 disconnecting_world lost_client)
   \<and> connack_codes (a_log (snd (attemptConnection disconnecting_world lost_client 0))) = [5, 5]
   \<and> GetInitialRC (r_client (reconnect 1 disconnecting_world lost_client)) = 0
   \<and> GetInitialRC (r_client (reconnect 1 disconnecting_world lost_client))
       \<noteq> last (connack_codes (a_log (snd (attemptConnection disconnecting_world lost_client 0))))
   \<and> connack_codes (a_log (snd (connect_attempt half_dead_world connecting_client 0))) = [5, 5]
   \<and> GetInitialRC (fst (connect_attempt half_dead_world connecting_client 0)) = 254
   \<and> GetInitialRC (fst (connect_attempt half_dead_world connecting_client 0))
       \<noteq> last (connack_codes (a_log (snd (connect_attempt half_dead_world connecting_client 0))))
   \<and> connack_codes (a_log (snd (connect_attempt transport_dead_world connecting_client 0)))
       = [5, 5]
   \<and> GetInitialRC (fst (connect_attempt transport_dead_world connecting_client 0)) = 254
   \<and> GetInitialRC (fst (connect_attempt transport_dead_world connecting_client 0))
       \<noteq> last (connack_codes
                 (a_log (snd (connect_attempt transport_dead_world connecting_client 0))))"
proof -
  have c: "GetInitialRC lost_client = 0"
    by (simp add: GetInitialRC_def lost_client_def connect_defs)
  have r: "GetInitialRC (r_client (reconnect 1 disconnecting_world lost_client)) = 0"
    using c by (simp add: GetInitialRC_def reconnect_InitialRC)
  have h: "GetInitialRC (fst (connect_attempt half_dead_world connecting_client 0)) = 254"
    by (simp add: GetInitialRC_def connect_attempt_fields half_dead_attempt ErrNetworkError_def)
  have t: "GetInitialRC (fst (connect_attempt transport_dead_world connecting_client 0)) = 254"
    by (simp add: GetInitialRC_def connect_attempt_fields transport_dead_attempt
        ErrNetworkError_def)
  from c r h t disconnecting_reconnect show ?thesis
    by (simp add: disconnecting_attempt connect_attempt_fields half_dead_attempt
        transport_dead_attempt connack_codes_def ErrNetworkError_def)
qed

end
